theory Spec2Isabelle
  imports Complex_Main
begin

section \<open>Values of the JavaScript run time\<close>

text \<open>
  A JavaScript number is modelled as a \<^typ>\<open>real\<close>, and as an \<^typ>\<open>int\<close> or a
  \<^typ>\<open>nat\<close> where the code only ever holds an integer (a clock reading in
  milliseconds, a length, the replay position, which stays far below \<open>2^53\<close>). Sums,
  products and quotients are exact: rounding, overflow to \<^verbatim>\<open>Infinity\<close> and
  \<^verbatim>\<open>NaN\<close> of IEEE doubles are outside the model, which therefore serves for bounds
  and for control flow, and not for properties that hold of doubles only up to rounding.
  A \<^verbatim>\<open>Date\<close> is its time value in milliseconds. A string is a list of code units
  below 256; \<^verbatim>\<open>undefined\<close> is \<^const>\<open>None\<close>.
\<close>

type_synonym Date = int

text \<open>\<^verbatim>\<open>new Date(x)\<close> keeps the integral part of \<^verbatim>\<open>x\<close> (truncation towards zero).\<close>

definition new_Date :: "real \<Rightarrow> Date" where
  "new_Date x = (if 0 \<le> x then \<lfloor>x\<rfloor> else \<lceil>x\<rceil>)"

definition Math_floor :: "real \<Rightarrow> int" where
  "Math_floor x = \<lfloor>x\<rfloor>"

text \<open>
  \<^verbatim>\<open>Math.PI\<close> is not \<open>\<pi>\<close> but the double nearest to it,
  \<open>884279719003555 / 2^48 = 3.141592653589793115997963...\<close>. \<^verbatim>\<open>Math.sin\<close> is the
  engine's approximation of the sine on doubles. The model takes it from the environment
  and knows of it only that its values lie between \<open>-1\<close> and \<open>1\<close>: they are of the type
  \<open>sine\<close>. The function stands for the rounding of its argument and of its result as well,
  so the model does not make a signal built on it periodic.
\<close>

definition Math_PI :: real where
  "Math_PI = 884279719003555 / 281474976710656"

typedef sine = "{x :: real. - 1 \<le> x \<and> x \<le> 1}"
  by (rule exI [of _ 0]) simp

text \<open>Decimal digits of a natural number, and the string a template literal makes of an integer.\<close>

fun digits_of :: "nat \<Rightarrow> nat \<Rightarrow> string" where
  "digits_of 0 n = ''''"
| "digits_of (Suc fuel) n =
     (if n < 10 then [char_of (48 + n)]
      else digits_of fuel (n div 10) @ [char_of (48 + n mod 10)])"

definition nat_toString :: "nat \<Rightarrow> string" where
  "nat_toString n = digits_of (Suc n) n"

definition int_toString :: "int \<Rightarrow> string" where
  "int_toString i = (if i < 0 then ''-'' @ nat_toString (nat (- i)) else nat_toString (nat i))"

text \<open>
  \<^verbatim>\<open>x.toFixed(f)\<close>: the integer \<open>n\<close> nearest to \<open>x * 10^f\<close> (the larger one at a tie),
  written with \<open>f\<close> digits after the point and a sign for negative \<open>x\<close>. The exponent
  notation of numbers from \<open>10^21\<close> on is outside the model.
\<close>

definition toFixed :: "real \<Rightarrow> nat \<Rightarrow> string" where
  "toFixed x f =
     (let a = \<bar>x\<bar>;
          n = nat \<lfloor>a * 10 ^ f + 1 / 2\<rfloor>;
          m = nat_toString n;
          s = (if f = 0 then m
               else (let k = length m;
                         z = (if k \<le> f then replicate (f + 1 - k) (CHR ''0'') @ m else m)
                     in take (length z - f) z @ ''.'' @ drop (length z - f) z))
      in (if x < 0 then ''-'' @ s else s))"

section \<open>Replies of the text service, as far as the code reads them\<close>

record Part =
  "text" :: "string option"

record Content =
  parts :: "Part list option"

record Candidate =
  content :: "Content option"

record ApiData =
  candidates :: "Candidate list option"

text \<open>
  What \<^verbatim>\<open>fetch\<close> does: the promise is rejected, or it yields a response with its
  \<^verbatim>\<open>ok\<close> flag and the value \<^verbatim>\<open>response.json()\<close> gives (\<^const>\<open>None\<close> when
  the body is not the JSON of an object).
\<close>

datatype fetch_outcome = Fetch_rejected | Fetch_response bool "ApiData option"

section \<open>The environment of the backend\<close>

text \<open>
  The backend reads four things it does not compute: \<^verbatim>\<open>Math.random()\<close>, the wall clock
  (\<^verbatim>\<open>Date.now()\<close>, \<^verbatim>\<open>new Date()\<close>), \<^verbatim>\<open>uuidv4()\<close> and the answer of the remote
  text service to a request (its URL and the prompt sent). Each is a source indexed by the
  number of reads made so far; a read returns the next value and advances the index. Every
  function that draws a random number or reads the clock takes the world and returns it
  updated, in the order in which JavaScript evaluates the calls. The world also holds the
  engine's \<^verbatim>\<open>Math.sin\<close>, a function of its argument that no call changes.
\<close>

record world =
  random_src :: "nat \<Rightarrow> real"
  random_pos :: nat
  clock_src :: "nat \<Rightarrow> int"
  clock_pos :: nat
  uuid_src :: "nat \<Rightarrow> string"
  uuid_pos :: nat
  fetch_src :: "nat \<Rightarrow> string \<times> string \<Rightarrow> fetch_outcome"
  fetch_pos :: nat
  sin_src :: "real \<Rightarrow> sine"

definition Math_sin :: "world \<Rightarrow> real \<Rightarrow> real" where
  "Math_sin w x = Rep_sine (sin_src w x)"

definition Math_random :: "world \<Rightarrow> real \<times> world" where
  "Math_random w = (random_src w (random_pos w), w\<lparr>random_pos := Suc (random_pos w)\<rparr>)"

definition Date_now :: "world \<Rightarrow> int \<times> world" where
  "Date_now w = (clock_src w (clock_pos w), w\<lparr>clock_pos := Suc (clock_pos w)\<rparr>)"

definition uuidv4 :: "world \<Rightarrow> string \<times> world" where
  "uuidv4 w = (uuid_src w (uuid_pos w), w\<lparr>uuid_pos := Suc (uuid_pos w)\<rparr>)"

definition fetch :: "string \<times> string \<Rightarrow> world \<Rightarrow> fetch_outcome \<times> world" where
  "fetch request w = (fetch_src w (fetch_pos w) request, w\<lparr>fetch_pos := Suc (fetch_pos w)\<rparr>)"

section \<open>Data models (data/models.ts)\<close>

text \<open>The string-literal unions of the models are datatypes, one constructor per literal.\<close>

datatype sensor_type = Temperature | Pressure | Flow | Power | Vibration | Ph | Humidity

record SensorReading =
  timestamp :: Date
  sensor_id :: string
  "value" :: real
  unit :: string
  location :: string
  sensor_type :: sensor_type

record ProcessParameters =
  timestamp :: Date
  kiln_temperature :: real
  kiln_pressure :: real
  raw_mill_power :: real
  cement_mill_power :: real
  production_rate :: real
  energy_consumption :: real
  alternative_fuel_rate :: real
  raw_meal_flow :: real
  cement_fineness :: real
  clinker_temperature :: real
  exhaust_fan_speed :: real
  preheater_temperature :: real

record ChemicalComposition =
  c3s :: real
  c2s :: real
  c3a :: real
  c4af :: real
  so3 :: real
  free_lime :: real

record QualityMetrics =
  timestamp :: Date
  sample_id :: string
  blaine_fineness :: real
  compressive_strength_3d :: real
  compressive_strength_28d :: real
  setting_time_initial :: real
  setting_time_final :: real
  quality_score :: real
  defect_count :: real
  consistency :: real
  chemical_composition :: ChemicalComposition

datatype equipment_state = Running | Stopped | Maintenance | Error

record EquipmentStatus =
  equipment_id :: string
  equipment_name :: string
  status :: equipment_state
  efficiency :: real
  temperature :: real
  vibration_level :: real
  power_consumption :: real
  runtime_hours :: real
  last_maintenance :: Date
  location :: string
  alerts :: "string list"

datatype alert_severity = Low | Medium | High | Critical

datatype alert_type =
  Alert_temperature | Alert_vibration | Alert_power | Alert_quality | Alert_efficiency
  | Alert_maintenance

text \<open>
  The \<^verbatim>\<open>type\<close> of a generated alert is read from a four-element array at a computed
  index (cast with \<^verbatim>\<open>as any\<close>), so it is \<^verbatim>\<open>undefined\<close> when the index is outside.
\<close>

record Alert =
  alert_id :: string
  timestamp :: Date
  severity :: alert_severity
  alert_type :: "alert_type option"
  message :: string
  acknowledged :: bool
  resolved :: bool
  equipment_id :: "string option"

record EnvironmentalData =
  timestamp :: Date
  co2_emissions :: real
  nox_emissions :: real
  so2_emissions :: real
  dust_emissions :: real
  energy_consumption_specific :: real
  alternative_fuel_substitution :: real
  waste_heat_recovery :: real
  water_consumption :: real

datatype recommendation_type =
  Energy_optimization | Quality_improvement | Maintenance_recommendation | Environmental

datatype recommendation_priority = Priority_low | Priority_medium | Priority_high | Priority_urgent

record ParameterAdjustment =
  parameter :: string
  current_value :: real
  recommended_value :: real
  unit :: string

record AIRecommendation =
  recommendation_id :: string
  timestamp :: Date
  recommendation_type :: recommendation_type
  priority :: recommendation_priority
  title :: string
  description :: string
  expected_benefit :: string
  implementation_steps :: "string list"
  confidence_score :: real
  parameters_to_adjust :: "ParameterAdjustment list"

record PlantOverview =
  timestamp :: Date
  overall_efficiency :: real
  production_rate_current :: real
  production_rate_target :: real
  energy_consumption_current :: real
  energy_consumption_target :: real
  quality_score_avg :: real
  active_alerts_count :: nat
  equipment_running_count :: nat
  equipment_total_count :: nat
  environmental_compliance :: bool

record DashboardData =
  plant_overview :: PlantOverview
  recent_sensors :: "SensorReading list"
  current_parameters :: ProcessParameters
  recent_quality :: "QualityMetrics list"
  equipment_status :: "EquipmentStatus list"
  active_alerts :: "Alert list"
  ai_recommendations :: "AIRecommendation list"
  environmental_data :: EnvironmentalData

record SimulationConfig =
  plant_capacity :: real
  sensor_count :: real
  simulation_speed :: real
  noise_level :: real
  anomaly_probability :: real
  quality_variation :: real

section \<open>The simulator (simulation/dataGenerator.ts)\<close>

record CementPlantSimulator =
  config :: SimulationConfig
  baseTime :: Date
  simulationRunning :: bool
  lastParameters :: "ProcessParameters option"
  useRealData :: bool

definition new_CementPlantSimulator ::
  "SimulationConfig \<Rightarrow> world \<Rightarrow> CementPlantSimulator \<times> world" where
  "new_CementPlantSimulator cfg w =
     (let (now, w1) = Date_now w
      in (\<lparr>config = cfg, baseTime = now, simulationRunning = False, lastParameters = None,
           useRealData = False\<rparr>, w1))"

definition getRandomInRange :: "real \<Rightarrow> real \<Rightarrow> real \<Rightarrow> world \<Rightarrow> real \<times> world" where
  "getRandomInRange mn mx noise w =
     (let (r1, w1) = Math_random w;
          base = mn + r1 * (mx - mn);
          (r2, w2) = Math_random w1;
          noiseValue = base * noise * (r2 - 0.5) * 2
      in (max mn (min mx (base + noiseValue)), w2))"

definition generateCyclicalValue ::
  "CementPlantSimulator \<Rightarrow> real \<Rightarrow> real \<Rightarrow> real \<Rightarrow> real \<Rightarrow> world \<Rightarrow> real \<times> world" where
  "generateCyclicalValue sim baseValue amplitude period phase w =
     (let (now, w1) = Date_now w;
          timeInHours = (of_int now - of_int (baseTime sim)) / (1000 * 60 * 60);
          cyclical = Math_sin w ((2 * Math_PI * timeInHours / period) + phase)
      in (baseValue + (amplitude * cyclical), w1))"

definition generateSensorReadings ::
  "CementPlantSimulator \<Rightarrow> world \<Rightarrow> SensorReading list \<times> world" where
  "generateSensorReadings sim w =
     (let (ts, w0) = Date_now w;
          cap = plant_capacity (config sim);
          (v1, w1) = generateCyclicalValue sim 1450 50 4 0 w0;
          (v2, w2) = getRandomInRange (- 15) (- 5) 0.1 w1;
          (v3, w3) = generateCyclicalValue sim 2800 200 6 (Math_PI / 4) w2;
          (v4, w4) = generateCyclicalValue sim 3200 300 8 (Math_PI / 2) w3;
          (v5, w5) = generateCyclicalValue sim (cap * 0.85) (cap * 0.1) 12 0 w4;
          (v6, w6) = getRandomInRange 320 380 0.1 w5;
          (v7, w7) = getRandomInRange 15 25 0.1 w6;
          (v8, w8) = getRandomInRange 340 380 0.1 w7
      in ([\<lparr>SensorReading.timestamp = ts, sensor_id = ''KILN_TEMP_01'', value = v1,
            SensorReading.unit = CHR 0xB0 # ''C'',
            SensorReading.location = ''Kiln Burning Zone'', sensor_type = Temperature\<rparr>,
           \<lparr>SensorReading.timestamp = ts, sensor_id = ''KILN_PRESSURE_01'', value = v2,
            SensorReading.unit = ''kPa'',
            SensorReading.location = ''Kiln Inlet'', sensor_type = Pressure\<rparr>,
           \<lparr>SensorReading.timestamp = ts, sensor_id = ''RAW_MILL_POWER_01'', value = v3,
            SensorReading.unit = ''kW'',
            SensorReading.location = ''Raw Mill'', sensor_type = Power\<rparr>,
           \<lparr>SensorReading.timestamp = ts, sensor_id = ''CEMENT_MILL_POWER_01'', value = v4,
            SensorReading.unit = ''kW'',
            SensorReading.location = ''Cement Mill'', sensor_type = Power\<rparr>,
           \<lparr>SensorReading.timestamp = ts, sensor_id = ''PRODUCTION_FLOW_01'', value = v5,
            SensorReading.unit = ''TPH'',
            SensorReading.location = ''Cement Silo'', sensor_type = Flow\<rparr>,
           \<lparr>SensorReading.timestamp = ts, sensor_id = ''EXHAUST_TEMP_01'', value = v6,
            SensorReading.unit = CHR 0xB0 # ''C'',
            SensorReading.location = ''Preheater Exit'', sensor_type = Temperature\<rparr>,
           \<lparr>SensorReading.timestamp = ts, sensor_id = ''DUST_LEVEL_01'', value = v7,
            SensorReading.unit = ''mg/Nm'' @ [CHR 0xB3],
            SensorReading.location = ''Stack'', sensor_type = Flow\<rparr>,
           \<lparr>SensorReading.timestamp = ts, sensor_id = ''FINENESS_01'', value = v8,
            SensorReading.unit = ''m'' @ [CHR 0xB2] @ ''/kg'',
            SensorReading.location = ''Cement Mill Exit'', sensor_type = Flow\<rparr>], w8))"

text \<open>
  The object literal of \<^verbatim>\<open>generateProcessParameters\<close> is evaluated field by field, so
  the clock is read once for the timestamp and once in each cyclical value, and the random
  draws are made in the order of the fields. The record built is retained in
  \<^const>\<open>lastParameters\<close>.
\<close>

definition generateProcessParameters ::
  "CementPlantSimulator \<Rightarrow> world \<Rightarrow> ProcessParameters \<times> CementPlantSimulator \<times> world" where
  "generateProcessParameters sim w =
     (let (ts, w0) = Date_now w;
          timeHours = (of_int ts - of_int (baseTime sim)) / (1000 * 60 * 60);
          productionCycle = Math_sin w (2 * Math_PI * timeHours / 24);
          (e, w1) = getRandomInRange (- 0.05) 0.05 0.5 w0;
          eff = 0.8 + 0.15 * productionCycle + e;
          (kt, w2) = generateCyclicalValue sim 1450 40 4 0 w1;
          (kp, w3) = getRandomInRange (- 15) (- 5) 0.1 w2;
          (rm, w4) = generateCyclicalValue sim 2800 200 6 0 w3;
          (cm, w5) = generateCyclicalValue sim 3200 250 8 0 w4;
          (ec, w6) = getRandomInRange 85 105 0.1 w5;
          (af, w7) = getRandomInRange 15 35 0.1 w6;
          (cf, w8) = getRandomInRange 340 380 0.1 w7;
          (ct, w9) = getRandomInRange 1100 1200 0.1 w8;
          (ef, w10) = getRandomInRange 480 520 0.1 w9;
          (pt, w11) = getRandomInRange 320 380 0.1 w10;
          parameters = \<lparr>
            ProcessParameters.timestamp = ts,
            kiln_temperature = kt,
            kiln_pressure = kp,
            raw_mill_power = rm * eff,
            cement_mill_power = cm * eff,
            production_rate = plant_capacity (config sim) * eff,
            energy_consumption = ec / eff,
            alternative_fuel_rate = af,
            raw_meal_flow = plant_capacity (config sim) * 1.55 * eff,
            cement_fineness = cf,
            clinker_temperature = ct,
            exhaust_fan_speed = ef,
            preheater_temperature = pt\<rparr>
      in (parameters, sim\<lparr>lastParameters := Some parameters\<rparr>, w11))"

definition generateQualityMetrics ::
  "CementPlantSimulator \<Rightarrow> world \<Rightarrow> QualityMetrics \<times> world" where
  "generateQualityMetrics sim w =
     (let (ts, w0) = Date_now w;
          (r0, w1) = Math_random w0;
          qualityBase = 75 + r0 * 20;
          (now, w2) = Date_now w1;
          (r1, w3) = Math_random w2;
          (bf, w4) = getRandomInRange 340 380 0.1 w3;
          (s3, w5) = getRandomInRange 18 25 0.1 w4;
          (s28, w6) = getRandomInRange 42 52 0.1 w5;
          (si, w7) = getRandomInRange 45 90 0.1 w6;
          (sf, w8) = getRandomInRange 180 300 0.1 w7;
          (dc, w9) = getRandomInRange 0 5 0.1 w8;
          (co, w10) = getRandomInRange 95 99.5 0.1 w9;
          (a1, w11) = getRandomInRange 50 65 0.1 w10;
          (a2, w12) = getRandomInRange 15 25 0.1 w11;
          (a3, w13) = getRandomInRange 8 12 0.1 w12;
          (a4, w14) = getRandomInRange 8 12 0.1 w13;
          (a5, w15) = getRandomInRange 2.5 3.5 0.1 w14;
          (a6, w16) = getRandomInRange 0.5 1.5 0.1 w15
      in (\<lparr>QualityMetrics.timestamp = ts,
           sample_id = ''QS_'' @ int_toString now @ ''_'' @ int_toString (Math_floor (r1 * 1000)),
           blaine_fineness = bf,
           compressive_strength_3d = s3,
           compressive_strength_28d = s28,
           setting_time_initial = si,
           setting_time_final = sf,
           quality_score = qualityBase,
           defect_count = of_int (Math_floor dc),
           consistency = co,
           chemical_composition =
             \<lparr>c3s = a1, c2s = a2, c3a = a3, c4af = a4, so3 = a5, free_lime = a6\<rparr>\<rparr>, w16))"

text \<open>\<^verbatim>\<open>xs[i]\<close> for a computed index: \<^verbatim>\<open>undefined\<close> outside the array.\<close>

definition array_index :: "'a list \<Rightarrow> int \<Rightarrow> 'a option" where
  "array_index xs i = (if 0 \<le> i \<and> nat i < length xs then Some (xs ! nat i) else None)"

text \<open>\<^verbatim>\<open>xs.map(f)\<close> for a callback that reads the environment: the calls are made in order.\<close>

fun Array_map :: "('a \<Rightarrow> world \<Rightarrow> 'b \<times> world) \<Rightarrow> 'a list \<Rightarrow> world \<Rightarrow> 'b list \<times> world" where
  "Array_map f [] w = ([], w)"
| "Array_map f (x # xs) w =
     (let (y, w1) = f x w;
          (ys, w2) = Array_map f xs w1
      in (y # ys, w2))"

definition generateAlertsForEquipment :: "string \<Rightarrow> world \<Rightarrow> Alert list \<times> world" where
  "generateAlertsForEquipment equipmentId w =
     (let (r, w1) = Math_random w
      in if r < 0.3 then
           (let (uid, w2) = uuidv4 w1;
                (now, w3) = Date_now w2;
                (r1, w4) = Math_random w3;
                (r2, w5) = Math_random w4;
                (sev, w6) =
                  (if r2 > 0.7 then (High, w5)
                   else (let (r3, w') = Math_random w5
                         in (if r3 > 0.4 then Medium else Low, w')));
                (r4, w7) = Math_random w6;
                (r5, w8) = Math_random w7;
                (r6, w9) = Math_random w8
            in ([\<lparr>alert_id = uid,
                  Alert.timestamp = new_Date (of_int now - r1 * 24 * 60 * 60 * 1000),
                  severity = sev,
                  alert_type =
                    array_index [Alert_temperature, Alert_vibration, Alert_power, Alert_efficiency]
                      (Math_floor (r4 * 4)),
                  message = equipmentId @ '': Parameter deviation detected'',
                  acknowledged = (r5 > 0.3),
                  resolved = (r6 > 0.6),
                  Alert.equipment_id = Some equipmentId\<rparr>], w9))
         else ([], w1))"

text \<open>The fixed equipment of the plant, and the callback that \<^verbatim>\<open>equipment.map\<close> applies.\<close>

definition equipment :: "(string \<times> string) list" where
  "equipment =
     [(''KILN_01'', ''Rotary Kiln #1''),
      (''RAW_MILL_01'', ''Raw Mill #1''),
      (''CEMENT_MILL_01'', ''Cement Mill #1''),
      (''PREHEATER_01'', ''Preheater Tower''),
      (''COOLER_01'', ''Grate Cooler''),
      (''CRUSHER_01'', ''Limestone Crusher''),
      (''SEPARATOR_01'', ''Cement Separator''),
      (''FAN_01'', ''Exhaust Fan'')]"

definition equipmentStatus_entry :: "string \<times> string \<Rightarrow> world \<Rightarrow> EquipmentStatus \<times> world" where
  "equipmentStatus_entry eq w =
     (let (r1, w1) = Math_random w;
          (st, w2) =
            (if r1 > 0.05 then (Running, w1)
             else (let (r2, w') = Math_random w1
                   in (if r2 > 0.5 then Maintenance else Error, w')));
          (ef, w3) = getRandomInRange 85 98 0.1 w2;
          (te, w4) = getRandomInRange 45 85 0.1 w3;
          (vi, w5) = getRandomInRange 0.5 8.0 0.1 w4;
          (pc, w6) = getRandomInRange 800 3500 0.1 w5;
          (rh, w7) = getRandomInRange 1000 8760 0.1 w6;
          (now, w8) = Date_now w7;
          (r3, w9) = Math_random w8;
          (r4, w10) = Math_random w9;
          (als, w11) = generateAlertsForEquipment (fst eq) w10
      in (\<lparr>EquipmentStatus.equipment_id = fst eq,
           equipment_name = snd eq,
           status = st,
           efficiency = ef,
           temperature = te,
           vibration_level = vi,
           power_consumption = pc,
           runtime_hours = rh,
           last_maintenance = new_Date (of_int now - r3 * 30 * 24 * 60 * 60 * 1000),
           EquipmentStatus.location = ''Plant Section '' @ int_toString (Math_floor (r4 * 3) + 1),
           alerts = map message als\<rparr>, w11))"

definition generateEquipmentStatus ::
  "CementPlantSimulator \<Rightarrow> world \<Rightarrow> EquipmentStatus list \<times> world" where
  "generateEquipmentStatus sim w = Array_map equipmentStatus_entry equipment w"

text \<open>
  \<^verbatim>\<open>this.lastParameters?.production_rate || fallback\<close>: the fallback is taken when no
  parameters are retained, and also when the retained rate is \<open>0\<close>.
\<close>

definition lastProductionRate_or :: "CementPlantSimulator \<Rightarrow> real \<Rightarrow> real" where
  "lastProductionRate_or sim fallback =
     (case lastParameters sim of
        None \<Rightarrow> fallback
      | Some p \<Rightarrow> (if production_rate p = 0 then fallback else production_rate p))"

definition generateEnvironmentalData ::
  "CementPlantSimulator \<Rightarrow> world \<Rightarrow> EnvironmentalData \<times> world" where
  "generateEnvironmentalData sim w =
     (let (ts, w0) = Date_now w;
          productionRate = lastProductionRate_or sim (plant_capacity (config sim) * 0.8);
          (co2, w1) = getRandomInRange 820 950 0.1 w0;
          (nox, w2) = getRandomInRange 400 800 0.1 w1;
          (so2, w3) = getRandomInRange 50 200 0.1 w2;
          (dust, w4) = getRandomInRange 15 30 0.1 w3;
          (ecs, w5) = getRandomInRange 85 105 0.1 w4;
          (afs, w6) = getRandomInRange 15 35 0.1 w5;
          (whr, w7) = getRandomInRange 20 35 0.1 w6;
          (wc, w8) = getRandomInRange 200 350 0.1 w7
      in (\<lparr>EnvironmentalData.timestamp = ts,
           co2_emissions = co2,
           nox_emissions = nox,
           so2_emissions = so2,
           dust_emissions = dust,
           energy_consumption_specific = ecs,
           alternative_fuel_substitution = afs,
           waste_heat_recovery = productionRate * whr,
           water_consumption = wc\<rparr>, w8))"

definition generatePlantOverview ::
  "CementPlantSimulator \<Rightarrow> world \<Rightarrow> PlantOverview \<times> world" where
  "generatePlantOverview sim w =
     (let (ts, w0) = Date_now w;
          (equipmentStatus, w1) = generateEquipmentStatus sim w0;
          runningEquipment = length (filter (\<lambda>eq. status eq = Running) equipmentStatus);
          activeAlerts = foldl (\<lambda>total eq. total + length (alerts eq)) 0 equipmentStatus;
          (oe, w2) = getRandomInRange 82 94 0.1 w1;
          (ecc, w3) = getRandomInRange 85 105 0.1 w2;
          (qsa, w4) = getRandomInRange 88 96 0.1 w3;
          (r, w5) = Math_random w4
      in (\<lparr>PlantOverview.timestamp = ts,
           overall_efficiency = oe,
           production_rate_current =
             lastProductionRate_or sim (plant_capacity (config sim) * 0.85),
           production_rate_target = plant_capacity (config sim),
           energy_consumption_current = ecc,
           energy_consumption_target = 90,
           quality_score_avg = qsa,
           active_alerts_count = activeAlerts,
           equipment_running_count = runningEquipment,
           equipment_total_count = length equipmentStatus,
           environmental_compliance = (r > 0.1)\<rparr>, w5))"

definition startSimulation :: "CementPlantSimulator \<Rightarrow> CementPlantSimulator" where
  "startSimulation sim = sim\<lparr>simulationRunning := True\<rparr>"

definition stopSimulation :: "CementPlantSimulator \<Rightarrow> CementPlantSimulator" where
  "stopSimulation sim = sim\<lparr>simulationRunning := False\<rparr>"

definition isRunning :: "CementPlantSimulator \<Rightarrow> bool" where
  "isRunning sim = simulationRunning sim"

section \<open>The chat service (ai/geminiService.ts)\<close>

record GeminiResponse =
  response :: string
  confidence :: real
  recommendations :: "string list option"
  context_used :: "string list"

record GeminiService =
  apiKey :: string
  customSystemPrompt :: "string option"

definition baseURL :: string where
  "baseURL =
     ''https://generativelanguage.googleapis.com/v1beta/models/gemini-pro:generateContent''"

definition new_GeminiService :: "string \<Rightarrow> GeminiService" where
  "new_GeminiService key = \<lparr>apiKey = key, customSystemPrompt = None\<rparr>"

text \<open>
  \<^verbatim>\<open>process.env.GEMINI_API_KEY || 'demo-key'\<close>: an unset or empty variable gives the demo key.
\<close>

definition createGeminiService :: "string option \<Rightarrow> GeminiService" where
  "createGeminiService env_key =
     new_GeminiService
       (case env_key of None \<Rightarrow> ''demo-key'' | Some k \<Rightarrow> (if k = [] then ''demo-key'' else k))"

definition setCustomSystemPrompt :: "GeminiService \<Rightarrow> string \<Rightarrow> GeminiService" where
  "setCustomSystemPrompt svc prompt = svc\<lparr>customSystemPrompt := Some prompt\<rparr>"

definition getCustomSystemPrompt :: "GeminiService \<Rightarrow> string option" where
  "getCustomSystemPrompt svc = customSystemPrompt svc"

definition clearCustomSystemPrompt :: "GeminiService \<Rightarrow> GeminiService" where
  "clearCustomSystemPrompt svc = svc\<lparr>customSystemPrompt := None\<rparr>"

text \<open>The three fixed texts of the service, line by line as in the source.\<close>

definition defaultSystemPrompt :: string where
  "defaultSystemPrompt =
     ''\<newline>'' @
     ''You are CementAI Nexus Assistant, an expert AI system for cement plant operations. You have deep knowledge of:\<newline>'' @
     ''\<newline>'' @
     ''1. Cement Manufacturing Process:\<newline>'' @
     ''   - Raw material preparation and grinding\<newline>'' @
     ''   - Pyroprocessing in rotary kilns\<newline>'' @
     ''   - Clinker cooling and cement grinding\<newline>'' @
     ''   - Quality control and testing\<newline>'' @
     ''\<newline>'' @
     ''2. Equipment and Systems:\<newline>'' @
     ''   - Rotary kilns, preheaters, and coolers\<newline>'' @
     ''   - Raw mills and cement mills\<newline>'' @
     ''   - Fans, separators, and conveyors\<newline>'' @
     ''   - Control systems and instrumentation\<newline>'' @
     ''\<newline>'' @
     ''3. Process Optimization:\<newline>'' @
     ''   - Energy efficiency improvements\<newline>'' @
     ''   - Alternative fuel utilization\<newline>'' @
     ''   - Emissions reduction strategies\<newline>'' @
     ''   - Quality optimization techniques\<newline>'' @
     ''\<newline>'' @
     ''4. Operational Excellence:\<newline>'' @
     ''   - Preventive maintenance\<newline>'' @
     ''   - Safety procedures\<newline>'' @
     ''   - Environmental compliance\<newline>'' @
     ''   - Cost optimization\<newline>'' @
     ''\<newline>'' @
     ''Always provide:\<newline>'' @
     ''- Clear, actionable recommendations\<newline>'' @
     ''- Specific technical explanations\<newline>'' @
     ''- Safety considerations\<newline>'' @
     ''- Environmental impact awareness\<newline>'' @
     ''- Cost-benefit analysis when relevant\<newline>'' @
     ''\<newline>'' @
     ''Keep responses concise but comprehensive, suitable for plant operators and engineers.\<newline>''"

definition fallbackText :: string where
  "fallbackText =
     ''I apologize, but I'm having trouble connecting to the AI service right now. \<newline>'' @
     ''\<newline>'' @
     ''However, based on your question, I can provide general guidance:\<newline>'' @
     ''\<newline>'' @
     ''For cement plant operations, the key areas to focus on are:\<newline>'' @
     ''- **Process Control**: Maintaining stable kiln temperature, consistent raw meal feed, and optimal mill operations\<newline>'' @
     ''- **Quality Assurance**: Regular testing of cement properties, monitoring fineness and strength development\<newline>'' @
     ''- **Energy Efficiency**: Optimizing fuel consumption, utilizing alternative fuels, and reducing specific energy consumption\<newline>'' @
     ''- **Environmental Compliance**: Managing emissions, dust control, and sustainable practices\<newline>'' @
     ''\<newline>'' @
     ''Please try your question again, or feel free to ask more specific questions about:\<newline>'' @
     ''- Kiln operation and temperature control\<newline>'' @
     ''- Quality parameters and testing\<newline>'' @
     ''- Energy optimization strategies\<newline>'' @
     ''- Environmental compliance\<newline>'' @
     ''- Maintenance and reliability\<newline>'' @
     ''\<newline>'' @
     ''I'll do my best to provide detailed, context-aware recommendations based on your current plant data.''"

definition unavailableText :: string where
  "unavailableText =
     ''I apologize, but I am currently unable to access the AI system. Please try again later.''"

text \<open>A custom prompt is used when it is set and not the empty string.\<close>

definition buildSystemPrompt :: "GeminiService \<Rightarrow> string" where
  "buildSystemPrompt svc =
     (case customSystemPrompt svc of
        None \<Rightarrow> defaultSystemPrompt
      | Some p \<Rightarrow> (if p = [] then defaultSystemPrompt else p))"

text \<open>What a template literal makes of a string that may be \<^verbatim>\<open>undefined\<close>.\<close>

definition template_of :: "string option \<Rightarrow> string" where
  "template_of s = (case s of None \<Rightarrow> ''undefined'' | Some t \<Rightarrow> t)"

definition buildContextualPrompt ::
  "string option \<Rightarrow> DashboardData option \<Rightarrow> ProcessParameters option \<Rightarrow> string" where
  "buildContextualPrompt question dashboardData plantContext =
     (let contextPrompt = ''Question: '' @ template_of question @ ''\<newline>\<newline>''
      in case dashboardData of
           None \<Rightarrow> contextPrompt
         | Some d \<Rightarrow>
             contextPrompt
             @ ''Current Plant Status:\<newline>''
             @ ''- Overall Efficiency: '' @ toFixed (overall_efficiency (plant_overview d)) 1
               @ ''%\<newline>''
             @ ''- Production Rate: '' @ toFixed (production_rate_current (plant_overview d)) 0
               @ '' TPH\<newline>''
             @ ''- Energy Consumption: ''
               @ toFixed (energy_consumption_current (plant_overview d)) 1 @ '' kWh/ton\<newline>''
             @ ''- Quality Score: '' @ toFixed (quality_score_avg (plant_overview d)) 1
               @ ''\<newline>''
             @ ''- Active Alerts: '' @ nat_toString (active_alerts_count (plant_overview d))
               @ ''\<newline>\<newline>''
             @ ''Key Process Parameters:\<newline>''
             @ ''- Kiln Temperature: '' @ toFixed (kiln_temperature (current_parameters d)) 0
               @ [CHR 0xB0] @ ''C\<newline>''
             @ ''- Raw Mill Power: '' @ toFixed (raw_mill_power (current_parameters d)) 0
               @ '' kW\<newline>''
             @ ''- Cement Mill Power: '' @ toFixed (cement_mill_power (current_parameters d)) 0
               @ '' kW\<newline>''
             @ ''- Alternative Fuel Rate: ''
               @ toFixed (alternative_fuel_rate (current_parameters d)) 1 @ ''%\<newline>\<newline>''
             @ ''Environmental Metrics:\<newline>''
             @ ''- CO2 Emissions: '' @ toFixed (co2_emissions (environmental_data d)) 0
               @ '' kg/ton\<newline>''
             @ ''- Alternative Fuel Substitution: ''
               @ toFixed (alternative_fuel_substitution (environmental_data d)) 1
               @ ''%\<newline>\<newline>'')"

definition fallbackReply :: ApiData where
  "fallbackReply =
     \<lparr>candidates = Some [\<lparr>content = Some \<lparr>parts = Some [\<lparr>text = Some fallbackText\<rparr>]\<rparr>\<rparr>]\<rparr>"

text \<open>
  \<^verbatim>\<open>!data.candidates || !data.candidates[0] || !data.candidates[0].content\<close>, the check
  that \<^verbatim>\<open>callGeminiAPI\<close> makes on the parsed body.
\<close>

definition unexpected_structure :: "ApiData \<Rightarrow> bool" where
  "unexpected_structure d =
     (case candidates d of
        None \<Rightarrow> True
      | Some [] \<Rightarrow> True
      | Some (c # _) \<Rightarrow> content c = None)"

text \<open>
  Every \<^verbatim>\<open>throw\<close> inside the \<^verbatim>\<open>try\<close> block of \<^verbatim>\<open>callGeminiAPI\<close> (a rejected
  fetch, a response that is not ok, a body that does not parse, an unexpected structure)
  is caught by its own \<^verbatim>\<open>catch\<close>, which returns the fallback reply: the function
  never throws.
\<close>

definition callGeminiAPI :: "GeminiService \<Rightarrow> string \<Rightarrow> world \<Rightarrow> ApiData \<times> world" where
  "callGeminiAPI svc prompt w =
     (let (outcome, w1) = fetch (baseURL @ ''?key='' @ apiKey svc, prompt) w
      in (case outcome of
            Fetch_rejected \<Rightarrow> fallbackReply
          | Fetch_response ok body \<Rightarrow>
              (if \<not> ok then fallbackReply
               else (case body of
                       None \<Rightarrow> fallbackReply
                     | Some d \<Rightarrow> (if unexpected_structure d then fallbackReply else d))),
          w1))"

text \<open>
  The outcomes of the fetch on which the \<^verbatim>\<open>try\<close> block of \<^verbatim>\<open>callGeminiAPI\<close> throws:
  the call to the text service fails (the fetch is rejected, or the response is not ok),
  or the body delivered is not JSON of the expected structure.
\<close>

definition failed_call :: "fetch_outcome \<Rightarrow> bool" where
  "failed_call outcome =
     (case outcome of
        Fetch_rejected \<Rightarrow> True
      | Fetch_response ok body \<Rightarrow>
          (\<not> ok \<or> (case body of None \<Rightarrow> True | Some d \<Rightarrow> unexpected_structure d)))"

text \<open>The request that \<^verbatim>\<open>askGemini\<close> makes \<^verbatim>\<open>callGeminiAPI\<close> send: the URL and the prompt.\<close>

definition chat_request ::
  "GeminiService \<Rightarrow> string option \<Rightarrow> DashboardData option \<Rightarrow> string \<times> string" where
  "chat_request svc question dashboardData =
     (baseURL @ ''?key='' @ apiKey svc,
      buildSystemPrompt svc @ ''\<newline>\<newline>''
        @ buildContextualPrompt question dashboardData None)"

text \<open>\<^verbatim>\<open>text.split('\n')\<close>: the pieces between the separators, at least one.\<close>

fun split_on :: "char \<Rightarrow> string \<Rightarrow> string list" where
  "split_on c [] = [[]]"
| "split_on c (x # xs) =
     (if x = c then [] # split_on c xs
      else (case split_on c xs of
              [] \<Rightarrow> [[x]]
            | l # ls \<Rightarrow> (x # l) # ls))"

text \<open>\<^verbatim>\<open>line.includes(sub)\<close>: \<^verbatim>\<open>sub\<close> occurs in \<^verbatim>\<open>line\<close> at some position.\<close>

fun String_includes :: "string \<Rightarrow> string \<Rightarrow> bool" where
  "String_includes [] sub = (sub = [])"
| "String_includes (c # cs) sub = (take (length sub) (c # cs) = sub \<or> String_includes cs sub)"

text \<open>
  The class \<^verbatim>\<open>\w\<close> of a regular expression (letters, digits, underscore), and the
  white space that \<^verbatim>\<open>trim\<close> removes, among the code units below 256.
\<close>

definition is_word_char :: "char \<Rightarrow> bool" where
  "is_word_char c =
     (let n = (of_char c :: nat)
      in (65 \<le> n \<and> n \<le> 90) \<or> (97 \<le> n \<and> n \<le> 122) \<or> (48 \<le> n \<and> n \<le> 57) \<or> n = 95)"

definition is_white_space :: "char \<Rightarrow> bool" where
  "is_white_space c =
     (let n = (of_char c :: nat)
      in n = 9 \<or> n = 10 \<or> n = 11 \<or> n = 12 \<or> n = 13 \<or> n = 32 \<or> n = 160)"

text \<open>\<^verbatim>\<open>line.replace(/^\W+/, '')\<close> drops the non-word characters the line begins with.\<close>

definition strip_leading_nonword :: "string \<Rightarrow> string" where
  "strip_leading_nonword line = dropWhile (\<lambda>c. \<not> is_word_char c) line"

definition trim :: "string \<Rightarrow> string" where
  "trim s = rev (dropWhile is_white_space (rev (dropWhile is_white_space s)))"

definition mentions_action :: "string \<Rightarrow> bool" where
  "mentions_action line =
     (String_includes line ''Reduce'' \<or> String_includes line ''Increase'' \<or> String_includes line ''Optimize''
      \<or> String_includes line ''Adjust'' \<or> String_includes line ''Monitor'' \<or> String_includes line ''Check'')"

definition cleaned :: "string \<Rightarrow> string" where
  "cleaned line = trim (strip_leading_nonword line)"

definition extractRecommendations :: "string \<Rightarrow> string list" where
  "extractRecommendations txt =
     (let lines = split_on CHR ''\<newline>'' txt;
          recommendations =
            filter (\<lambda>c. length c > 10) (map cleaned (filter mentions_action lines))
      in take 5 recommendations)"

datatype error = Failed_to_parse

text \<open>
  \<^verbatim>\<open>response.candidates[0].content.parts[0].text\<close> throws when a link of the chain is
  missing, and \<^verbatim>\<open>text.split\<close> throws when the text is missing; the \<^verbatim>\<open>catch\<close> of
  \<^verbatim>\<open>parseGeminiResponse\<close> rethrows each as the one error.
\<close>

definition parseGeminiResponse :: "ApiData \<Rightarrow> error + GeminiResponse" where
  "parseGeminiResponse r =
     (case candidates r of
        None \<Rightarrow> Inl Failed_to_parse
      | Some [] \<Rightarrow> Inl Failed_to_parse
      | Some (c # _) \<Rightarrow>
          (case content c of
             None \<Rightarrow> Inl Failed_to_parse
           | Some ct \<Rightarrow>
               (case parts ct of
                  None \<Rightarrow> Inl Failed_to_parse
                | Some [] \<Rightarrow> Inl Failed_to_parse
                | Some (p # _) \<Rightarrow>
                    (case text p of
                       None \<Rightarrow> Inl Failed_to_parse
                     | Some t \<Rightarrow>
                         Inr \<lparr>response = t,
                              confidence = 0.85,
                              recommendations = Some (extractRecommendations t),
                              context_used =
                                [''plant_data'', ''process_parameters'',
                                 ''environmental_metrics'']\<rparr>))))"

definition askGemini ::
  "GeminiService \<Rightarrow> string option \<Rightarrow> DashboardData option \<Rightarrow> ProcessParameters option
     \<Rightarrow> world \<Rightarrow> GeminiResponse \<times> world" where
  "askGemini svc question dashboardData plantContext w =
     (let systemPrompt = buildSystemPrompt svc;
          contextualPrompt = buildContextualPrompt question dashboardData plantContext;
          fullPrompt = systemPrompt @ ''\<newline>\<newline>'' @ contextualPrompt;
          (reply, w1) = callGeminiAPI svc fullPrompt w
      in (case parseGeminiResponse reply of
            Inr r \<Rightarrow> (r, w1)
          | Inl e \<Rightarrow>
              (\<lparr>response = unavailableText,
                confidence = 0,
                recommendations = None,
                context_used = [''error'']\<rparr>, w1)))"

section \<open>The server (index.ts)\<close>

subsection \<open>Data\<close>

text \<open>
  A record of the real-data sequence. The sequence is an \<^verbatim>\<open>any[]\<close>; the fields are those
  of the sample records, which are all that the code reads.
\<close>

record RealDataRecord =
  timestamp :: string
  kiln_temperature :: real
  kiln_pressure :: real
  raw_mill_power :: real
  cement_mill_power :: real
  production_rate :: real
  compressive_strength :: real
  fineness :: real
  co2_emissions :: real
  energy_consumption :: real

text \<open>
  The configuration read at start-up, from the parsed \<^verbatim>\<open>PLANT_CAPACITY\<close> and
  \<^verbatim>\<open>SENSOR_COUNT\<close>, which default to 2000 and 50.
\<close>

definition simulationConfig :: "real \<Rightarrow> real \<Rightarrow> SimulationConfig" where
  "simulationConfig capacity sensors =
     \<lparr>plant_capacity = capacity, sensor_count = sensors, simulation_speed = 1,
      noise_level = 0.1, anomaly_probability = 0.05, quality_variation = 0.1\<rparr>"

subsection \<open>Requests and responses\<close>

text \<open>
  What a handler sends: the status, the \<^verbatim>\<open>success\<close> flag, the payload (the
  \<^verbatim>\<open>data\<close> field, or for the mode-control endpoints the further fields of the body),
  the \<^verbatim>\<open>error\<close> text and the timestamp. A handler takes the parsed request body where
  it reads one (\<^const>\<open>None\<close> when there is none, so that destructuring it throws), the
  state and the world, and returns the response with the state and world it leaves.
  The generators do not throw, so the \<^verbatim>\<open>catch\<close> branch of a handler that reads no
  body is never taken and has no counterpart here.
\<close>

record 'a ApiResponse =
  status_code :: nat
  success :: bool
  data :: "'a option"
  error :: "string option"
  timestamp :: Date

record ChatBody =
  message :: "string option"

record LoadBody =
  dataType :: "string option"
  source :: "string option"

record LoadInfo =
  message :: string
  dataType :: string
  recordCount :: nat

record ToggleInfo =
  message :: string
  realDataEnabled :: bool
  currentDataSource :: string

record StatusInfo =
  realDataEnabled :: bool
  recordCount :: nat
  currentIndex :: nat
  dataSource :: string
  nextRecord :: "RealDataRecord option"

definition loadSampleRealData :: "RealDataRecord list" where
  "loadSampleRealData =
     [
      \<lparr>RealDataRecord.timestamp = ''2024-01-01T00:00:00Z'',
       kiln_temperature = 1450.5, kiln_pressure = (- 12.3), raw_mill_power = 2850,
       cement_mill_power = 3150, production_rate = 1850, compressive_strength = 42.5,
       fineness = 365, co2_emissions = 875, energy_consumption = 95.2\<rparr>,
      \<lparr>RealDataRecord.timestamp = ''2024-01-01T00:05:00Z'',
       kiln_temperature = 1452.1, kiln_pressure = (- 11.8), raw_mill_power = 2890,
       cement_mill_power = 3180, production_rate = 1870, compressive_strength = 43.1,
       fineness = 358, co2_emissions = 878, energy_consumption = 94.8\<rparr>,
      \<lparr>RealDataRecord.timestamp = ''2024-01-01T00:10:00Z'',
       kiln_temperature = 1448.7, kiln_pressure = (- 13.1), raw_mill_power = 2820,
       cement_mill_power = 3120, production_rate = 1820, compressive_strength = 41.9,
       fineness = 372, co2_emissions = 882, energy_consumption = 96.1\<rparr>,
      \<lparr>RealDataRecord.timestamp = ''2024-01-01T00:15:00Z'',
       kiln_temperature = 1455.3, kiln_pressure = (- 10.9), raw_mill_power = 2910,
       cement_mill_power = 3200, production_rate = 1895, compressive_strength = 44.2,
       fineness = 351, co2_emissions = 869, energy_consumption = 93.7\<rparr>,
      \<lparr>RealDataRecord.timestamp = ''2024-01-01T00:20:00Z'',
       kiln_temperature = 1451.8, kiln_pressure = (- 12.7), raw_mill_power = 2875,
       cement_mill_power = 3165, production_rate = 1860, compressive_strength = 42.8,
       fineness = 363, co2_emissions = 873, energy_consumption = 95.5\<rparr>,
      \<lparr>RealDataRecord.timestamp = ''2024-01-01T00:25:00Z'',
       kiln_temperature = 1453.4, kiln_pressure = (- 11.5), raw_mill_power = 2895,
       cement_mill_power = 3185, production_rate = 1885, compressive_strength = 43.5,
       fineness = 356, co2_emissions = 871, energy_consumption = 94.3\<rparr>,
      \<lparr>RealDataRecord.timestamp = ''2024-01-01T00:30:00Z'',
       kiln_temperature = 1449.9, kiln_pressure = (- 13.4), raw_mill_power = 2835,
       cement_mill_power = 3135, production_rate = 1835, compressive_strength = 42.1,
       fineness = 369, co2_emissions = 885, energy_consumption = 96.8\<rparr>,
      \<lparr>RealDataRecord.timestamp = ''2024-01-01T00:35:00Z'',
       kiln_temperature = 1456.2, kiln_pressure = (- 10.6), raw_mill_power = 2925,
       cement_mill_power = 3210, production_rate = 1905, compressive_strength = 44.8,
       fineness = 348, co2_emissions = 865, energy_consumption = 93.2\<rparr>,
      \<lparr>RealDataRecord.timestamp = ''2024-01-01T00:40:00Z'',
       kiln_temperature = 1452.7, kiln_pressure = (- 12.1), raw_mill_power = 2885,
       cement_mill_power = 3175, production_rate = 1875, compressive_strength = 43.3,
       fineness = 361, co2_emissions = 876, energy_consumption = 95.1\<rparr>,
      \<lparr>RealDataRecord.timestamp = ''2024-01-01T00:45:00Z'',
       kiln_temperature = 1450.3, kiln_pressure = (- 12.9), raw_mill_power = 2860,
       cement_mill_power = 3155, production_rate = 1850, compressive_strength = 42.6,
       fineness = 367, co2_emissions = 880, energy_consumption = 95.9\<rparr>]"

definition generateDashboardFromRealData ::
  "CementPlantSimulator \<Rightarrow> RealDataRecord \<Rightarrow> world \<Rightarrow> DashboardData \<times> world" where
  "generateDashboardFromRealData sim realData w =
     (let (ts, w0) = Date_now w;
          sensorReadings =
            [\<lparr>SensorReading.timestamp = ts, sensor_id = ''KILN_TEMP_01'',
              value = RealDataRecord.kiln_temperature realData,
              SensorReading.unit = CHR 0xB0 # ''C'',
              SensorReading.location = ''Kiln Burning Zone'', sensor_type = Temperature\<rparr>,
             \<lparr>SensorReading.timestamp = ts, sensor_id = ''KILN_PRESSURE_01'',
              value = RealDataRecord.kiln_pressure realData,
              SensorReading.unit = ''kPa'',
              SensorReading.location = ''Kiln Inlet'', sensor_type = Pressure\<rparr>,
             \<lparr>SensorReading.timestamp = ts, sensor_id = ''RAW_MILL_POWER_01'',
              value = RealDataRecord.raw_mill_power realData,
              SensorReading.unit = ''kW'',
              SensorReading.location = ''Raw Mill'', sensor_type = Power\<rparr>,
             \<lparr>SensorReading.timestamp = ts, sensor_id = ''CEMENT_MILL_POWER_01'',
              value = RealDataRecord.cement_mill_power realData,
              SensorReading.unit = ''kW'',
              SensorReading.location = ''Cement Mill'', sensor_type = Power\<rparr>,
             \<lparr>SensorReading.timestamp = ts, sensor_id = ''PRODUCTION_FLOW_01'',
              value = RealDataRecord.production_rate realData,
              SensorReading.unit = ''TPH'',
              SensorReading.location = ''Cement Silo'', sensor_type = Flow\<rparr>,
             \<lparr>SensorReading.timestamp = ts, sensor_id = ''FINENESS_01'',
              value = fineness realData,
              SensorReading.unit = ''m'' @ [CHR 0xB2] @ ''/kg'',
              SensorReading.location = ''Quality Control Lab'', sensor_type = Flow\<rparr>];
          processParameters =
            \<lparr>ProcessParameters.timestamp = ts,
             ProcessParameters.kiln_temperature = RealDataRecord.kiln_temperature realData,
             ProcessParameters.kiln_pressure = RealDataRecord.kiln_pressure realData,
             ProcessParameters.raw_mill_power = RealDataRecord.raw_mill_power realData,
             ProcessParameters.cement_mill_power = RealDataRecord.cement_mill_power realData,
             ProcessParameters.production_rate = RealDataRecord.production_rate realData,
             ProcessParameters.energy_consumption = RealDataRecord.energy_consumption realData,
             alternative_fuel_rate = 25,
             raw_meal_flow = RealDataRecord.production_rate realData * 1.55,
             cement_fineness = fineness realData,
             clinker_temperature = RealDataRecord.kiln_temperature realData - 300,
             exhaust_fan_speed = 500,
             preheater_temperature = RealDataRecord.kiln_temperature realData - 1100\<rparr>;
          (now, w1) = Date_now w0;
          qualityMetrics =
            \<lparr>QualityMetrics.timestamp = ts,
             sample_id = ''REAL_'' @ int_toString now,
             blaine_fineness = fineness realData,
             compressive_strength_3d = compressive_strength realData * 0.5,
             compressive_strength_28d = compressive_strength realData,
             setting_time_initial = 75,
             setting_time_final = 270,
             quality_score = min 95 (compressive_strength realData * 2),
             defect_count = 1,
             consistency = 97.5,
             chemical_composition =
               \<lparr>c3s = 60, c2s = 20, c3a = 10, c4af = 10, so3 = 3.0, free_lime = 1.0\<rparr>\<rparr>;
          environmentalData =
            \<lparr>EnvironmentalData.timestamp = ts,
             EnvironmentalData.co2_emissions = RealDataRecord.co2_emissions realData,
             nox_emissions = 650,
             so2_emissions = 120,
             dust_emissions = 25,
             energy_consumption_specific = RealDataRecord.energy_consumption realData,
             alternative_fuel_substitution = 25,
             waste_heat_recovery = RealDataRecord.production_rate realData * 25,
             water_consumption = 300\<rparr>;
          plantOverview =
            \<lparr>PlantOverview.timestamp = ts,
             overall_efficiency =
               min 95 (100 - (RealDataRecord.energy_consumption realData - 90) * 2),
             production_rate_current = RealDataRecord.production_rate realData,
             production_rate_target = 2000,
             energy_consumption_current = RealDataRecord.energy_consumption realData,
             energy_consumption_target = 90,
             quality_score_avg = min 95 (compressive_strength realData * 2),
             active_alerts_count = 2,
             equipment_running_count = 7,
             equipment_total_count = 8,
             environmental_compliance = True\<rparr>;
          (equipmentStatus, w2) = generateEquipmentStatus sim w1
      in (\<lparr>plant_overview = plantOverview,
           recent_sensors = sensorReadings,
           current_parameters = processParameters,
           recent_quality = [qualityMetrics],
           equipment_status = equipmentStatus,
           active_alerts = [],
           ai_recommendations = [],
           environmental_data = environmentalData\<rparr>, w2))"

text \<open>
  The module-level variables of the server: the simulator, the chat service, the cached
  latest snapshot (\<^verbatim>\<open>undefined\<close> until the first broadcast), the data-source mode, the
  real-data sequence and the replay position.
\<close>

record ServerState =
  simulator :: CementPlantSimulator
  geminiService :: GeminiService
  latestDashboardData :: "DashboardData option"
  realDataEnabled :: bool
  realDataSource :: "RealDataRecord list"
  realDataIndex :: nat

definition initial_state ::
  "SimulationConfig \<Rightarrow> string option \<Rightarrow> world \<Rightarrow> ServerState \<times> world" where
  "initial_state cfg env_key w =
     (let (sim, w1) = new_CementPlantSimulator cfg w
      in (\<lparr>simulator = sim,
           geminiService = createGeminiService env_key,
           latestDashboardData = None,
           realDataEnabled = False,
           realDataSource = [],
           realDataIndex = 0\<rparr>, w1))"

text \<open>
  The object literal of simulated data, which \<^verbatim>\<open>broadcastData\<close> and the dashboard
  endpoint both build: the six generators are called in the order of the fields, and
  \<^verbatim>\<open>generateProcessParameters\<close> updates the simulator.
\<close>

definition simulatedDashboard ::
  "CementPlantSimulator \<Rightarrow> world \<Rightarrow> DashboardData \<times> CementPlantSimulator \<times> world" where
  "simulatedDashboard sim w =
     (let (po, w1) = generatePlantOverview sim w;
          (rs, w2) = generateSensorReadings sim w1;
          (pp, sim', w3) = generateProcessParameters sim w2;
          (qm, w4) = generateQualityMetrics sim' w3;
          (es, w5) = generateEquipmentStatus sim' w4;
          (ed, w6) = generateEnvironmentalData sim' w5
      in (\<lparr>plant_overview = po,
           recent_sensors = rs,
           current_parameters = pp,
           recent_quality = [qm],
           equipment_status = es,
           active_alerts = [],
           ai_recommendations = [],
           environmental_data = ed\<rparr>, sim', w6))"

text \<open>
  One firing of the broadcast timer. The first component of the result is the snapshot
  sent to the subscribers with \<^verbatim>\<open>io.emit('dashboard_update', dashboardData)\<close>.
\<close>

definition broadcastData :: "ServerState \<Rightarrow> world \<Rightarrow> DashboardData \<times> ServerState \<times> world" where
  "broadcastData s w =
     (if realDataEnabled s \<and> length (realDataSource s) > 0 then
        (let currentRealData =
               realDataSource s ! (realDataIndex s mod length (realDataSource s));
             (dashboardData, w1) = generateDashboardFromRealData (simulator s) currentRealData w
         in (dashboardData,
             s\<lparr>realDataIndex := realDataIndex s + 1,
               latestDashboardData := Some dashboardData\<rparr>, w1))
      else
        (let (dashboardData, sim', w1) = simulatedDashboard (simulator s) w
         in (dashboardData,
             s\<lparr>simulator := sim', latestDashboardData := Some dashboardData\<rparr>, w1)))"

text \<open>
  \<open>n\<close> consecutive firings of the timer (\<^verbatim>\<open>setInterval(broadcastData, ...)\<close>) with
  no request in between: the snapshots sent, in order, and the state and world reached.
\<close>

fun broadcast_ticks ::
  "nat \<Rightarrow> ServerState \<Rightarrow> world \<Rightarrow> DashboardData list \<times> ServerState \<times> world" where
  "broadcast_ticks 0 s w = ([], s, w)"
| "broadcast_ticks (Suc n) s w =
     (let (ds, s1, w1) = broadcast_ticks n s w;
          (d, s2, w2) = broadcastData s1 w1
      in (ds @ [d], s2, w2))"

subsection \<open>Request handlers\<close>

definition get_api_sensors_realtime ::
  "ServerState \<Rightarrow> world \<Rightarrow> SensorReading list ApiResponse \<times> ServerState \<times> world" where
  "get_api_sensors_realtime s w =
     (let (sensorData, w1) = generateSensorReadings (simulator s) w;
          (now, w2) = Date_now w1
      in (\<lparr>status_code = 200, success = True, data = Some sensorData, error = None,
           ApiResponse.timestamp = now\<rparr>, s, w2))"

definition get_api_process_parameters ::
  "ServerState \<Rightarrow> world \<Rightarrow> ProcessParameters ApiResponse \<times> ServerState \<times> world" where
  "get_api_process_parameters s w =
     (let (processParams, sim', w1) = generateProcessParameters (simulator s) w;
          (now, w2) = Date_now w1
      in (\<lparr>status_code = 200, success = True, data = Some processParams, error = None,
           ApiResponse.timestamp = now\<rparr>, s\<lparr>simulator := sim'\<rparr>, w2))"

definition get_api_dashboard_data ::
  "ServerState \<Rightarrow> world \<Rightarrow> DashboardData ApiResponse \<times> ServerState \<times> world" where
  "get_api_dashboard_data s w =
     (case latestDashboardData s of
        Some latest \<Rightarrow>
          (let (now, w1) = Date_now w
           in (\<lparr>status_code = 200, success = True, data = Some latest, error = None,
                ApiResponse.timestamp = now\<rparr>, s, w1))
      | None \<Rightarrow>
          (let (dashboardData, sim', w1) = simulatedDashboard (simulator s) w;
               (now, w2) = Date_now w1
           in (\<lparr>status_code = 200, success = True, data = Some dashboardData, error = None,
                ApiResponse.timestamp = now\<rparr>, s\<lparr>simulator := sim'\<rparr>, w2)))"

definition post_api_ai_chat ::
  "ChatBody option \<Rightarrow> ServerState \<Rightarrow> world \<Rightarrow> GeminiResponse ApiResponse \<times> ServerState \<times> world" where
  "post_api_ai_chat body s w =
     (case body of
        None \<Rightarrow>
          (let (now, w1) = Date_now w
           in (\<lparr>status_code = 500, success = False, data = None,
                error = Some ''Failed to process AI request'',
                ApiResponse.timestamp = now\<rparr>, s, w1))
      | Some b \<Rightarrow>
          (let (r, w1) =
                 askGemini (geminiService s) (ChatBody.message b) (latestDashboardData s) None w;
               (now, w2) = Date_now w1
           in (\<lparr>status_code = 200, success = True, data = Some r, error = None,
                ApiResponse.timestamp = now\<rparr>, s, w2)))"

definition post_api_real_data_load ::
  "LoadBody option \<Rightarrow> ServerState \<Rightarrow> world \<Rightarrow> LoadInfo ApiResponse \<times> ServerState \<times> world" where
  "post_api_real_data_load body s w =
     (case body of
        None \<Rightarrow>
          (let (now, w1) = Date_now w
           in (\<lparr>status_code = 500, success = False, data = None,
                error = Some ''Failed to load real data'',
                ApiResponse.timestamp = now\<rparr>, s, w1))
      | Some b \<Rightarrow>
          (if LoadBody.dataType b = Some ''sample'' then
             (let s' = s\<lparr>realDataSource := loadSampleRealData,
                        realDataEnabled := True,
                        realDataIndex := 0\<rparr>;
                  (now, w1) = Date_now w
              in (\<lparr>status_code = 200, success = True,
                   data = Some
                     \<lparr>LoadInfo.message =
                        ''Loaded '' @ nat_toString (length (realDataSource s'))
                        @ '' real data records'',
                      LoadInfo.dataType = ''sample'',
                      recordCount = length (realDataSource s')\<rparr>,
                   error = None,
                   ApiResponse.timestamp = now\<rparr>, s', w1))
           else
             (let (now, w1) = Date_now w
              in (\<lparr>status_code = 400, success = False, data = None,
                   error = Some ''Unsupported data type. Use \"sample\" for demo data.'',
                   ApiResponse.timestamp = now\<rparr>, s, w1))))"

definition post_api_real_data_toggle ::
  "ServerState \<Rightarrow> world \<Rightarrow> ToggleInfo ApiResponse \<times> ServerState \<times> world" where
  "post_api_real_data_toggle s w =
     (let s' = s\<lparr>realDataEnabled := \<not> realDataEnabled s\<rparr>;
          (now, w1) = Date_now w
      in (\<lparr>status_code = 200, success = True,
           data = Some
             \<lparr>ToggleInfo.message =
                (if realDataEnabled s' then ''Real data mode enabled''
                 else ''Simulation mode enabled''),
              ToggleInfo.realDataEnabled = realDataEnabled s',
              currentDataSource =
                (if realDataEnabled s' then ''Real plant data''
                 else ''Simulated data'')\<rparr>,
           error = None,
           ApiResponse.timestamp = now\<rparr>, s', w1))"

definition get_api_real_data_status ::
  "ServerState \<Rightarrow> world \<Rightarrow> StatusInfo ApiResponse \<times> ServerState \<times> world" where
  "get_api_real_data_status s w =
     (let (now, w1) = Date_now w
      in (\<lparr>status_code = 200, success = True,
           data = Some
             \<lparr>StatusInfo.realDataEnabled = realDataEnabled s,
              StatusInfo.recordCount = length (realDataSource s),
              currentIndex = realDataIndex s,
              dataSource =
                (if realDataEnabled s then ''Real plant data''
                 else ''Simulated data''),
              nextRecord =
                (if realDataEnabled s \<and> length (realDataSource s) > 0
                 then Some (realDataSource s ! (realDataIndex s mod length (realDataSource s)))
                 else None)\<rparr>,
           error = None,
           ApiResponse.timestamp = now\<rparr>, s, w1))"

section \<open>A sample environment\<close>

text \<open>
  A world in which every random draw is \<open>1/2\<close>, the clock stands at \<open>0\<close> and every
  request to the text service is rejected, and the state in which the server starts there
  with the default configuration. The properties below are run on them. While the clock
  stands still the sine is only asked at the phases \<open>0\<close>, \<^verbatim>\<open>Math.PI / 4\<close> and
  \<^verbatim>\<open>Math.PI / 2\<close>, where \<^verbatim>\<open>Math.sin\<close> returns \<open>0\<close>, \<open>0.7071067811865475\<close> (the double
  \<open>6369051672525772 / 2^53\<close>) and \<open>1\<close>.
\<close>

definition still_world :: world where
  "still_world =
     \<lparr>random_src = (\<lambda>_. 1 / 2), random_pos = 0,
      clock_src = (\<lambda>_. 0), clock_pos = 0,
      uuid_src = (\<lambda>_. ''00000000-0000-4000-8000-000000000000''), uuid_pos = 0,
      fetch_src = (\<lambda>_ _. Fetch_rejected), fetch_pos = 0,
      sin_src =
        (\<lambda>x. Abs_sine
           (if x = Math_PI / 4 then 6369051672525772 / 9007199254740992
            else if x = Math_PI / 2 then 1 else 0))\<rparr>"

definition start_state :: ServerState where
  "start_state = fst (initial_state (simulationConfig 2000 50) None still_world)"

text \<open>The state and world after the sample sequence is loaded in the start state.\<close>

definition sample_load_body :: LoadBody where
  "sample_load_body = \<lparr>LoadBody.dataType = Some ''sample'', source = None\<rparr>"

definition loaded_state :: ServerState where
  "loaded_state = fst (snd (post_api_real_data_load (Some sample_load_body) start_state still_world))"

definition loaded_world :: world where
  "loaded_world = snd (snd (post_api_real_data_load (Some sample_load_body) start_state still_world))"

text \<open>
  A reply of the text service with seven lines, six of which name an action and are long
  enough once cleaned.
\<close>

definition sample_reply_text :: string where
  "sample_reply_text =
     ''Summary of findings:\<newline>'' @
     ''- Reduce kiln temperature by 10 degrees\<newline>'' @
     ''* Check it\<newline>'' @
     ''  2) Increase alternative fuel rate to 30%  \<newline>'' @
     ''**Optimize** the air-to-fuel ratio\<newline>'' @
     ''> Adjust cement mill power\<newline>'' @
     ''Monitor NOx emissions\<newline>'' @
     ''- Check separator efficiency weekly''"

definition sample_reply :: ApiData where
  "sample_reply =
     \<lparr>candidates =
        Some [\<lparr>content = Some \<lparr>parts = Some [\<lparr>text = Some sample_reply_text\<rparr>]\<rparr>\<rparr>]\<rparr>"

definition sample_chat_body :: ChatBody where
  "sample_chat_body = \<lparr>ChatBody.message = Some ''How is the kiln?''\<rparr>"

section \<open>Properties of the signal synthesizer\<close>

lemma getRandomInRange_bounds:
  assumes "mn \<le> mx"
  shows "mn \<le> fst (getRandomInRange mn mx noise w)"
    and "fst (getRandomInRange mn mx noise w) \<le> mx"
  using assms by (simp_all add: getRandomInRange_def Let_def split_beta)

text \<open>
  C6. For every \<open>min \<le> max\<close> and every noise fraction, \<^verbatim>\<open>getRandomInRange\<close> returns a
  value \<open>v\<close> with \<open>min \<le> v \<le> max\<close>: the jittered value is clamped to the interval. The
  bound holds whatever the two random draws are, so in particular for draws in \<open>[0,1)\<close>.
\<close>

theorem getRandomInRange_within_range:
  "mn \<le> mx \<Longrightarrow>
     mn \<le> fst (getRandomInRange mn mx noise w) \<and> fst (getRandomInRange mn mx noise w) \<le> mx"
  by (simp add: getRandomInRange_bounds)

text \<open>
  With both draws at \<open>0.99\<close> the jittered value \<open>24.9 + 2.4402\<close> leaves the interval
  \<open>[15, 25]\<close> and is clamped.
\<close>

theorem getRandomInRange_within_range_witness:
  "(15::real) \<le> 25
   \<and> 15 \<le> fst (getRandomInRange 15 25 0.1 (still_world\<lparr>random_src := (\<lambda>_. 99 / 100)\<rparr>))
   \<and> fst (getRandomInRange 15 25 0.1 (still_world\<lparr>random_src := (\<lambda>_. 99 / 100)\<rparr>)) \<le> 25"
  using getRandomInRange_within_range
    [of 15 25 "0.1" "still_world\<lparr>random_src := (\<lambda>_. 99 / 100)\<rparr>"]
  by simp

lemma start_simulator:
  "simulator start_state =
     \<lparr>config = simulationConfig 2000 50, baseTime = 0, simulationRunning = False,
      lastParameters = None, useRealData = False\<rparr>"
  by (simp add: start_state_def initial_state_def new_CementPlantSimulator_def Date_now_def
      still_world_def Let_def)

section \<open>Properties of the snapshot generator\<close>

lemma scaled_unit_bounds:
  fixes a s :: real
  assumes "0 \<le> a" "- 1 \<le> s" "s \<le> 1"
  shows "- a \<le> a * s" and "a * s \<le> a"
proof -
  have "a * (- 1) \<le> a * s" using assms by (intro mult_left_mono) auto
  then show "- a \<le> a * s" by simp
  have "a * s \<le> a * 1" using assms by (intro mult_left_mono) auto
  then show "a * s \<le> a" by simp
qed

lemma Math_sin_range: "- 1 \<le> Math_sin w x" "Math_sin w x \<le> 1"
  using Rep_sine [of "sin_src w x"] by (simp_all add: Math_sin_def)

lemma generateCyclicalValue_value:
  "\<exists>x. fst (generateCyclicalValue sim b a p ph w) = b + a * Math_sin w x"
  by (simp only: generateCyclicalValue_def Date_now_def Let_def split_beta fst_conv snd_conv)
    blast

lemma generateCyclicalValue_bounds:
  assumes "0 \<le> a"
  shows "b - a \<le> fst (generateCyclicalValue sim b a p ph w)"
    and "fst (generateCyclicalValue sim b a p ph w) \<le> b + a"
proof -
  obtain x where v: "fst (generateCyclicalValue sim b a p ph w) = b + a * Math_sin w x"
    using generateCyclicalValue_value by blast
  show "b - a \<le> fst (generateCyclicalValue sim b a p ph w)"
    and "fst (generateCyclicalValue sim b a p ph w) \<le> b + a"
    unfolding v using scaled_unit_bounds [OF assms Math_sin_range, of w x] by simp_all
qed

lemma kiln_envelope:
  "1410 \<le> fst (generateCyclicalValue sim 1450 40 4 0 v)"
  "fst (generateCyclicalValue sim 1450 40 4 0 v) \<le> 1490"
  using generateCyclicalValue_bounds [where a=40 and b=1450 and sim=sim and p=4 and ph=0 and w=v]
  by simp_all

lemma raw_mill_cycle_nonneg: "0 \<le> fst (generateCyclicalValue sim 2800 200 6 0 v)"
  using generateCyclicalValue_bounds(1) [where a=200 and b=2800 and sim=sim and p=6 and ph=0 and w=v]
  by simp

lemma cement_mill_cycle_nonneg: "0 \<le> fst (generateCyclicalValue sim 3200 250 8 0 v)"
  using generateCyclicalValue_bounds(1) [where a=250 and b=3200 and sim=sim and p=8 and ph=0 and w=v]
  by simp

lemma energy_draw_nonneg: "0 \<le> fst (getRandomInRange 85 105 0.1 v)"
  using getRandomInRange_bounds(1) [where mn=85 and mx=105 and noise="0.1" and w=v] by simp

lemma efficiency_lower:
  fixes s e :: real
  assumes "- 1 \<le> s" "- 0.05 \<le> e"
  shows "0 < 0.8 + 0.15 * s + e"
  using assms by simp

lemma efficiency_pos:
  "0 < 0.8 + 0.15 * Math_sin w x + fst (getRandomInRange (- 0.05) 0.05 0.5 v)"
  by (rule efficiency_lower) (simp_all add: getRandomInRange_bounds Math_sin_range)

text \<open>
  C8. Every record that \<^verbatim>\<open>generateProcessParameters\<close> produces has its kiln temperature
  in the envelope \<open>[1450 - 40, 1450 + 40] = [1410, 1490]\<close>, and its raw mill power, cement
  mill power, production rate and energy consumption are not negative, for a configured
  plant capacity that is not negative (so for every positive one) and whatever the random
  draws are: the efficiency factor stays above \<open>0.8 - 0.15 - 0.05\<close>.
\<close>

theorem generateProcessParameters_bounds:
  assumes "0 \<le> plant_capacity (config sim)"
  shows "1410 \<le> ProcessParameters.kiln_temperature (fst (generateProcessParameters sim w))
       \<and> ProcessParameters.kiln_temperature (fst (generateProcessParameters sim w)) \<le> 1490
       \<and> 0 \<le> ProcessParameters.raw_mill_power (fst (generateProcessParameters sim w))
       \<and> 0 \<le> ProcessParameters.cement_mill_power (fst (generateProcessParameters sim w))
       \<and> 0 \<le> ProcessParameters.production_rate (fst (generateProcessParameters sim w))
       \<and> 0 \<le> ProcessParameters.energy_consumption (fst (generateProcessParameters sim w))"
  apply (simp only: generateProcessParameters_def Let_def split_beta fst_conv snd_conv
      ProcessParameters.select_convs)
  apply (intro conjI mult_nonneg_nonneg divide_nonneg_pos kiln_envelope raw_mill_cycle_nonneg
      cement_mill_cycle_nonneg energy_draw_nonneg assms less_imp_le [OF efficiency_pos] efficiency_pos)
  done


text \<open>The default configuration (2000 TPH) in the sample world.\<close>

theorem generateProcessParameters_bounds_witness:
  "0 \<le> plant_capacity (config (simulator start_state))
   \<and> 1410 \<le> ProcessParameters.kiln_temperature (fst (generateProcessParameters (simulator start_state) still_world))
       \<and> ProcessParameters.kiln_temperature (fst (generateProcessParameters (simulator start_state) still_world)) \<le> 1490
       \<and> 0 \<le> ProcessParameters.raw_mill_power (fst (generateProcessParameters (simulator start_state) still_world))
       \<and> 0 \<le> ProcessParameters.cement_mill_power (fst (generateProcessParameters (simulator start_state) still_world))
       \<and> 0 \<le> ProcessParameters.production_rate (fst (generateProcessParameters (simulator start_state) still_world))
       \<and> 0 \<le> ProcessParameters.energy_consumption (fst (generateProcessParameters (simulator start_state) still_world))"
proof -
  have h: "0 \<le> plant_capacity (config (simulator start_state))"
    by (simp add: start_simulator simulationConfig_def)
  show ?thesis
    using h generateProcessParameters_bounds [OF h, of still_world] by simp
qed

lemma Array_map_ids:
  "map EquipmentStatus.equipment_id (fst (Array_map equipmentStatus_entry eqs w)) = map fst eqs"
  by (induction eqs arbitrary: w) (simp_all add: split_beta Let_def equipmentStatus_entry_def)

lemma entry_status: "status (fst (equipmentStatus_entry eq w)) \<noteq> Stopped"
  by (simp add: equipmentStatus_entry_def split_beta Let_def)

lemma Array_map_status:
  "\<forall>e \<in> set (fst (Array_map equipmentStatus_entry eqs w)). status e \<noteq> Stopped"
  by (induction eqs arbitrary: w) (simp_all add: split_beta Let_def entry_status)

text \<open>
  C9. Every call of \<^verbatim>\<open>generateEquipmentStatus\<close> returns exactly 8 records, with the
  equipment ids \<^verbatim>\<open>KILN_01\<close>, \<^verbatim>\<open>RAW_MILL_01\<close>, \<^verbatim>\<open>CEMENT_MILL_01\<close>,
  \<^verbatim>\<open>PREHEATER_01\<close>, \<^verbatim>\<open>COOLER_01\<close>, \<^verbatim>\<open>CRUSHER_01\<close>, \<^verbatim>\<open>SEPARATOR_01\<close>,
  \<^verbatim>\<open>FAN_01\<close> in this order, and the status of each is running, maintenance or error:
  the status stopped of the type is never produced.
\<close>

theorem generateEquipmentStatus_fixed_units:
  "length (fst (generateEquipmentStatus sim w)) = 8
   \<and> map EquipmentStatus.equipment_id (fst (generateEquipmentStatus sim w))
       = [''KILN_01'', ''RAW_MILL_01'', ''CEMENT_MILL_01'', ''PREHEATER_01'', ''COOLER_01'',
          ''CRUSHER_01'', ''SEPARATOR_01'', ''FAN_01'']
   \<and> (\<forall>e \<in> set (fst (generateEquipmentStatus sim w)).
         status e \<in> {Running, Maintenance, Error} \<and> status e \<noteq> Stopped)"
proof -
  have ids: "map EquipmentStatus.equipment_id (fst (generateEquipmentStatus sim w)) = map fst equipment"
    by (simp add: generateEquipmentStatus_def Array_map_ids)
  have "length (map EquipmentStatus.equipment_id (fst (generateEquipmentStatus sim w))) = 8"
    unfolding ids by (simp add: equipment_def)
  then have len: "length (fst (generateEquipmentStatus sim w)) = 8" by simp
  have st: "\<forall>e \<in> set (fst (generateEquipmentStatus sim w)). status e \<noteq> Stopped"
    by (simp add: generateEquipmentStatus_def Array_map_status)
  have "\<And>x. x \<noteq> Stopped \<Longrightarrow> x \<in> {Running, Maintenance, Error}"
    by (case_tac x) simp_all
  with st len ids show ?thesis by (simp add: equipment_def)
qed

text \<open>The first and the last unit of the list generated in the sample world.\<close>

theorem generateEquipmentStatus_fixed_units_witness:
  "length (fst (generateEquipmentStatus (simulator start_state) still_world)) = 8
   \<and> map EquipmentStatus.equipment_id
         (fst (generateEquipmentStatus (simulator start_state) still_world))
       = [''KILN_01'', ''RAW_MILL_01'', ''CEMENT_MILL_01'', ''PREHEATER_01'', ''COOLER_01'',
          ''CRUSHER_01'', ''SEPARATOR_01'', ''FAN_01'']
   \<and> status (fst (generateEquipmentStatus (simulator start_state) still_world) ! 0) \<noteq> Stopped
   \<and> status (fst (generateEquipmentStatus (simulator start_state) still_world) ! 7) \<noteq> Stopped"
proof -
  let ?xs = "fst (generateEquipmentStatus (simulator start_state) still_world)"
  note t = generateEquipmentStatus_fixed_units [of "simulator start_state" still_world]
  from t have len: "length ?xs = 8" by blast
  then have "?xs ! 0 \<in> set ?xs" "?xs ! 7 \<in> set ?xs" by simp_all
  with t show ?thesis by blast
qed

section \<open>Properties of the data source switch\<close>

lemma broadcastData_real:
  assumes "realDataEnabled s" "realDataSource s \<noteq> []"
  shows "broadcastData s w =
     (fst (generateDashboardFromRealData (simulator s)
            (realDataSource s ! (realDataIndex s mod length (realDataSource s))) w),
      s\<lparr>realDataIndex := realDataIndex s + 1,
        latestDashboardData := Some (fst (generateDashboardFromRealData (simulator s)
            (realDataSource s ! (realDataIndex s mod length (realDataSource s))) w))\<rparr>,
      snd (generateDashboardFromRealData (simulator s)
            (realDataSource s ! (realDataIndex s mod length (realDataSource s))) w))"
  using assms by (simp add: broadcastData_def split_beta Let_def)

lemma broadcastData_simulated:
  assumes "\<not> (realDataEnabled s \<and> realDataSource s \<noteq> [])"
  shows "broadcastData s w =
     (fst (simulatedDashboard (simulator s) w),
      s\<lparr>simulator := fst (snd (simulatedDashboard (simulator s) w)),
        latestDashboardData := Some (fst (simulatedDashboard (simulator s) w))\<rparr>,
      snd (snd (simulatedDashboard (simulator s) w)))"
  using assms by (auto simp add: broadcastData_def split_beta Let_def)

lemma broadcast_ticks_Suc:
  "broadcast_ticks (Suc n) s w =
     (fst (broadcast_ticks n s w) @ [fst (broadcastData (fst (snd (broadcast_ticks n s w))) (snd (snd (broadcast_ticks n s w))))],
      fst (snd (broadcastData (fst (snd (broadcast_ticks n s w))) (snd (snd (broadcast_ticks n s w))))),
      snd (snd (broadcastData (fst (snd (broadcast_ticks n s w))) (snd (snd (broadcast_ticks n s w))))))"
  by (simp add: split_beta Let_def)

lemma broadcast_ticks_length: "length (fst (broadcast_ticks n s w)) = n"
  by (induction n) (simp_all add: split_beta Let_def)

lemma broadcast_ticks_real_state:
  assumes "realDataEnabled s" "realDataSource s \<noteq> []"
  shows "fst (snd (broadcast_ticks n s w)) =
           s\<lparr>realDataIndex := realDataIndex s + n,
             latestDashboardData := latestDashboardData (fst (snd (broadcast_ticks n s w)))\<rparr>"
proof (induction n)
  case 0
  show ?case by simp
next
  case (Suc n)
  let ?s = "fst (snd (broadcast_ticks n s w))"
  have e: "realDataEnabled ?s" and ne: "realDataSource ?s \<noteq> []"
    using assms by (subst Suc.IH, simp)+
  show ?case
    unfolding broadcast_ticks_Suc fst_conv snd_conv broadcastData_real [OF e ne]
    by (subst (1 2) Suc.IH) simp
qed

lemma broadcast_ticks_prefix:
  "k \<le> n \<Longrightarrow> take k (fst (broadcast_ticks n s w)) = fst (broadcast_ticks k s w)"
proof (induction n)
  case 0
  then show ?case by simp
next
  case (Suc n)
  show ?case
  proof (cases "k = Suc n")
    case True
    then show ?thesis using broadcast_ticks_length [of "Suc n" s w] by simp
  next
    case False
    with Suc.prems have "k \<le> n" by simp
    then show ?thesis
      using Suc.IH broadcast_ticks_length [of n s w] by (simp add: split_beta Let_def)
  qed
qed

lemma broadcast_ticks_nth:
  assumes "k < n"
  shows "fst (broadcast_ticks n s w) ! k =
     fst (broadcastData (fst (snd (broadcast_ticks k s w))) (snd (snd (broadcast_ticks k s w))))"
proof -
  have "fst (broadcast_ticks n s w) ! k = take (Suc k) (fst (broadcast_ticks n s w)) ! k"
    by simp
  also have "\<dots> = fst (broadcast_ticks (Suc k) s w) ! k"
    using assms by (simp add: broadcast_ticks_prefix del: broadcast_ticks.simps)
  also have "\<dots> = fst (broadcastData (fst (snd (broadcast_ticks k s w))) (snd (snd (broadcast_ticks k s w))))"
    unfolding broadcast_ticks_Suc fst_conv using broadcast_ticks_length [of k s w]
    by (simp add: nth_append)
  finally show ?thesis .
qed

text \<open>
  C1. When REAL mode is active and a non-empty sequence of \<open>N\<close> records is loaded, each
  broadcast tick uses the record at index \<open>position mod N\<close> and then increments the
  position, cyclically and for any number of ticks: after \<open>n\<close> ticks the position has
  advanced by \<open>n\<close>, and the snapshot sent at tick \<open>k\<close> is the one built from the record
  at index \<open>(position + k) mod N\<close>, in the world that the ticks before it left. (The
  25 ticks after loading the 10-record sample sequence are the instance that follows.)
\<close>

theorem real_mode_cyclic_replay:
  assumes "realDataEnabled s" and "realDataSource s \<noteq> []"
  shows "realDataIndex (fst (snd (broadcast_ticks n s w))) = realDataIndex s + n
       \<and> length (fst (broadcast_ticks n s w)) = n
       \<and> (\<forall>k<n. fst (broadcast_ticks n s w) ! k =
             fst (generateDashboardFromRealData (simulator s)
                   (realDataSource s ! ((realDataIndex s + k) mod length (realDataSource s)))
                   (snd (snd (broadcast_ticks k s w)))))"
proof (intro conjI allI impI)
  show "realDataIndex (fst (snd (broadcast_ticks n s w))) = realDataIndex s + n"
    by (subst broadcast_ticks_real_state [OF assms]) simp
  show "length (fst (broadcast_ticks n s w)) = n"
    by (rule broadcast_ticks_length)
next
  fix k assume "k < n"
  let ?s = "fst (snd (broadcast_ticks k s w))"
  have st: "?s = s\<lparr>realDataIndex := realDataIndex s + k,
             latestDashboardData := latestDashboardData ?s\<rparr>"
    by (rule broadcast_ticks_real_state [OF assms])
  have e: "realDataEnabled ?s" and ne: "realDataSource ?s \<noteq> []"
    using assms by (subst st, simp)+
  have src: "realDataSource ?s = realDataSource s" "realDataIndex ?s = realDataIndex s + k"
    "simulator ?s = simulator s"
    by (subst st, simp)+
  show "fst (broadcast_ticks n s w) ! k =
             fst (generateDashboardFromRealData (simulator s)
                   (realDataSource s ! ((realDataIndex s + k) mod length (realDataSource s)))
                   (snd (snd (broadcast_ticks k s w))))"
    unfolding broadcast_ticks_nth [OF \<open>k < n\<close>] broadcastData_real [OF e ne] fst_conv src ..
qed

lemma loaded_state_eq:
  "loaded_state = start_state\<lparr>realDataSource := loadSampleRealData, realDataEnabled := True, realDataIndex := 0\<rparr>"
  by (simp add: loaded_state_def post_api_real_data_load_def sample_load_body_def split_beta Let_def)

lemma loadSampleRealData_length: "length loadSampleRealData = 10"
  by (simp add: loadSampleRealData_def)

lemma real_dashboard_kiln:
  "ProcessParameters.kiln_temperature (current_parameters (fst (generateDashboardFromRealData sim r w)))
     = RealDataRecord.kiln_temperature r"
  by (simp add: generateDashboardFromRealData_def split_beta Let_def)

lemma replay_indices_25:
  "map (\<lambda>k. k mod 10) [0..<25] =
     [0, 1, 2, 3, 4, 5, 6, 7, 8, 9, 0, 1, 2, 3, 4, 5, 6, 7, 8, 9, 0, 1, 2, 3, 4::nat]"
  by code_simp

lemma map_by_index: "map f xs = map (\<lambda>k. f (xs ! k)) [0..<length xs]"
  by (rule nth_equalityI) simp_all

text \<open>
  The sample sequence is loaded in the start state and the timer fires 25 times: the
  kiln temperatures sent are those of the records at indices \<open>0..9, 0..9, 0..4\<close>.
\<close>

theorem real_mode_cyclic_replay_witness:
  "realDataEnabled loaded_state
   \<and> realDataSource loaded_state \<noteq> []
   \<and> realDataIndex loaded_state = 0
   \<and> realDataIndex (fst (snd (broadcast_ticks 25 loaded_state loaded_world))) = 25
   \<and> map (\<lambda>d. ProcessParameters.kiln_temperature (current_parameters d))
         (fst (broadcast_ticks 25 loaded_state loaded_world))
       = map (\<lambda>i. RealDataRecord.kiln_temperature (loadSampleRealData ! i))
           [0, 1, 2, 3, 4, 5, 6, 7, 8, 9, 0, 1, 2, 3, 4, 5, 6, 7, 8, 9, 0, 1, 2, 3, 4]"
proof -
  let ?ds = "fst (broadcast_ticks 25 loaded_state loaded_world)"
  let ?f = "\<lambda>d. ProcessParameters.kiln_temperature (current_parameters d)"
  have h1: "realDataEnabled loaded_state" and h2: "realDataSource loaded_state \<noteq> []"
    and h3: "realDataIndex loaded_state = 0"
    and src: "realDataSource loaded_state = loadSampleRealData"
    by (simp_all add: loaded_state_eq loadSampleRealData_def)
  note t = real_mode_cyclic_replay [OF h1 h2, of 25 loaded_world]
  from t have len: "length ?ds = 25" by blast
  from t have nth: "\<And>k. k < 25 \<Longrightarrow> ?f (?ds ! k) = RealDataRecord.kiln_temperature (loadSampleRealData ! (k mod 10))"
    by (simp add: real_dashboard_kiln h3 src loadSampleRealData_length del: broadcast_ticks.simps)
  have "map ?f ?ds = map (\<lambda>k. ?f (?ds ! k)) [0..<length ?ds]"
    by (rule map_by_index)
  also have "\<dots> = map (\<lambda>k. RealDataRecord.kiln_temperature (loadSampleRealData ! (k mod 10))) [0..<25]"
    unfolding len by (rule map_cong) (simp_all add: nth del: broadcast_ticks.simps)
  also have "\<dots> = map (\<lambda>i. RealDataRecord.kiln_temperature (loadSampleRealData ! i)) (map (\<lambda>k. k mod 10) [0..<25])"
    by (simp add: comp_def del: upt.simps)
  finally have "map ?f ?ds = map (\<lambda>i. RealDataRecord.kiln_temperature (loadSampleRealData ! i))
           [0, 1, 2, 3, 4, 5, 6, 7, 8, 9, 0, 1, 2, 3, 4, 5, 6, 7, 8, 9, 0, 1, 2, 3, 4]"
    unfolding replay_indices_25 .
  moreover from t have "realDataIndex (fst (snd (broadcast_ticks 25 loaded_state loaded_world))) = 25"
    using h3 by simp
  ultimately show ?thesis using h1 h2 h3 by blast
qed

lemma start_state_eq:
  "start_state =
     \<lparr>simulator = \<lparr>config = simulationConfig 2000 50, baseTime = 0, simulationRunning = False,
        lastParameters = None, useRealData = False\<rparr>,
      geminiService = \<lparr>apiKey = ''demo-key'', customSystemPrompt = None\<rparr>,
      latestDashboardData = None,
      realDataEnabled = False,
      realDataSource = [],
      realDataIndex = 0\<rparr>"
  by (simp add: start_state_def initial_state_def new_CementPlantSimulator_def Date_now_def
      still_world_def createGeminiService_def new_GeminiService_def Let_def)

text \<open>
  C2, as stated, fails: the load handler assigns \<^verbatim>\<open>realDataEnabled = true\<close>. In the
  start state the mode is SIMULATED, and after a successful load it is REAL.
\<close>

theorem load_flips_mode_counterexample:
  "\<not> realDataEnabled start_state
   \<and> realDataEnabled
       (fst (snd (post_api_real_data_load (Some sample_load_body) start_state still_world)))"
  by (simp add: start_state_eq post_api_real_data_load_def sample_load_body_def split_beta Let_def)

text \<open>
  C2, amended. A load with \<^verbatim>\<open>dataType\<close> \<^verbatim>\<open>'sample'\<close> succeeds, stores the sample
  sequence, resets the replay position to \<open>0\<close> and sets the mode to REAL whatever it
  was: the mode flag has the same value after the load as before it exactly when REAL
  mode was already active.
\<close>

theorem load_stores_resets_and_enables:
  "realDataSource (fst (snd (post_api_real_data_load
       (Some \<lparr>LoadBody.dataType = Some ''sample'', source = src\<rparr>) s w))) = loadSampleRealData
   \<and> realDataIndex (fst (snd (post_api_real_data_load
       (Some \<lparr>LoadBody.dataType = Some ''sample'', source = src\<rparr>) s w))) = 0
   \<and> realDataEnabled (fst (snd (post_api_real_data_load
       (Some \<lparr>LoadBody.dataType = Some ''sample'', source = src\<rparr>) s w)))
   \<and> status_code (fst (post_api_real_data_load
       (Some \<lparr>LoadBody.dataType = Some ''sample'', source = src\<rparr>) s w)) = 200
   \<and> (realDataEnabled (fst (snd (post_api_real_data_load
       (Some \<lparr>LoadBody.dataType = Some ''sample'', source = src\<rparr>) s w))) = realDataEnabled s)
      = realDataEnabled s"
  by (simp add: post_api_real_data_load_def split_beta Let_def)

theorem load_stores_resets_and_enables_witness:
  "realDataSource loaded_state = loadSampleRealData
   \<and> length (realDataSource loaded_state) = 10
   \<and> realDataIndex loaded_state = 0
   \<and> realDataEnabled loaded_state
   \<and> realDataEnabled loaded_state \<noteq> realDataEnabled start_state"
  using load_stores_resets_and_enables [of None start_state still_world]
  by (simp add: loaded_state_def sample_load_body_def loadSampleRealData_length start_state_eq)

lemma toggle_state:
  "fst (snd (post_api_real_data_toggle s w)) = s\<lparr>realDataEnabled := \<not> realDataEnabled s\<rparr>"
  by (simp add: post_api_real_data_toggle_def split_beta Let_def)

lemma broadcastData_index:
  "realDataIndex (fst (snd (broadcastData s w))) =
     (if realDataEnabled s \<and> realDataSource s \<noteq> [] then realDataIndex s + 1 else realDataIndex s)"
  by (simp add: broadcastData_def split_beta Let_def)

lemma broadcastData_mode:
  "realDataEnabled (fst (snd (broadcastData s w))) = realDataEnabled s"
  "realDataSource (fst (snd (broadcastData s w))) = realDataSource s"
  by (simp_all add: broadcastData_def split_beta Let_def)

lemma broadcast_ticks_mode:
  "realDataEnabled (fst (snd (broadcast_ticks n s w))) = realDataEnabled s
   \<and> realDataSource (fst (snd (broadcast_ticks n s w))) = realDataSource s"
  by (induction n) (simp_all add: split_beta Let_def broadcastData_mode)

lemma broadcast_ticks_simulated_index:
  assumes "\<not> realDataEnabled s"
  shows "realDataIndex (fst (snd (broadcast_ticks n s w))) = realDataIndex s"
proof (induction n)
  case 0
  show ?case by simp
next
  case (Suc n)
  have "\<not> realDataEnabled (fst (snd (broadcast_ticks n s w)))"
    using assms broadcast_ticks_mode [of n s w] by simp
  then show ?case
    unfolding broadcast_ticks_Suc fst_conv snd_conv broadcastData_index using Suc.IH by simp
qed

text \<open>
  C5. Toggling the mode twice in succession restores the original mode, and neither
  toggle changes the replay position. A broadcast tick advances the position (by one)
  exactly when the mode is REAL and the sequence is not empty, and leaves it unchanged
  otherwise. So switching from REAL to SIMULATED, letting the timer fire any number
  \<open>n\<close> of times and switching back leaves the position where it was, in REAL mode.
\<close>

theorem toggle_twice_keeps_position:
  "realDataEnabled (fst (snd (post_api_real_data_toggle
       (fst (snd (post_api_real_data_toggle s w))) w'))) = realDataEnabled s
   \<and> realDataIndex (fst (snd (post_api_real_data_toggle s w))) = realDataIndex s
   \<and> realDataIndex (fst (snd (post_api_real_data_toggle
       (fst (snd (post_api_real_data_toggle s w))) w'))) = realDataIndex s
   \<and> realDataIndex (fst (snd (broadcastData s w))) =
       (if realDataEnabled s \<and> realDataSource s \<noteq> [] then realDataIndex s + 1
        else realDataIndex s)
   \<and> (realDataEnabled s \<longrightarrow>
        realDataIndex (fst (snd (post_api_real_data_toggle
          (fst (snd (broadcast_ticks n (fst (snd (post_api_real_data_toggle s w))) w'))) w'')))
          = realDataIndex s
        \<and> realDataEnabled (fst (snd (post_api_real_data_toggle
          (fst (snd (broadcast_ticks n (fst (snd (post_api_real_data_toggle s w))) w'))) w''))))"
proof (intro conjI impI)
  assume en: "realDataEnabled s"
  let ?t = "fst (snd (post_api_real_data_toggle s w))"
  have off: "\<not> realDataEnabled ?t" using en by (simp add: toggle_state)
  have idx: "realDataIndex ?t = realDataIndex s" by (simp add: toggle_state)
  show "realDataIndex (fst (snd (post_api_real_data_toggle
          (fst (snd (broadcast_ticks n ?t w'))) w''))) = realDataIndex s"
    using broadcast_ticks_simulated_index [OF off, of n w'] idx
    by (simp add: toggle_state del: broadcast_ticks.simps)
  show "realDataEnabled (fst (snd (post_api_real_data_toggle
          (fst (snd (broadcast_ticks n ?t w'))) w'')))"
    using broadcast_ticks_mode [of n ?t w'] off
    by (simp add: toggle_state del: broadcast_ticks.simps)
qed (simp_all add: toggle_state broadcastData_index)

text \<open>
  From the loaded state (REAL, position 0): one tick would move the position to 1, while
  a toggle, four ticks in SIMULATED mode and a second toggle leave it at 0 in REAL mode.
\<close>

theorem toggle_twice_keeps_position_witness:
  "realDataEnabled loaded_state
   \<and> realDataIndex loaded_state = 0
   \<and> realDataIndex (fst (snd (broadcastData loaded_state loaded_world))) = 1
   \<and> realDataIndex (fst (snd (post_api_real_data_toggle
          (fst (snd (broadcast_ticks 4
             (fst (snd (post_api_real_data_toggle loaded_state loaded_world))) loaded_world)))
          loaded_world))) = 0
   \<and> realDataEnabled (fst (snd (post_api_real_data_toggle
          (fst (snd (broadcast_ticks 4
             (fst (snd (post_api_real_data_toggle loaded_state loaded_world))) loaded_world)))
          loaded_world)))"
proof -
  have h: "realDataEnabled loaded_state" "realDataIndex loaded_state = 0"
    "realDataSource loaded_state \<noteq> []"
    by (simp_all add: loaded_state_eq loadSampleRealData_def)
  show ?thesis
    using h toggle_twice_keeps_position
      [of loaded_state loaded_world loaded_world 4 loaded_world]
    by (simp del: broadcast_ticks.simps)
qed

section \<open>Properties of the pull endpoints\<close>

lemma generateProcessParameters_retained:
  "lastParameters (fst (snd (generateProcessParameters sim w))) = Some (fst (generateProcessParameters sim w))"
  by (simp add: generateProcessParameters_def split_beta Let_def)

lemma generateProcessParameters_frame:
  "fst (snd (generateProcessParameters sim w)) = sim\<lparr>lastParameters := Some (fst (generateProcessParameters sim w))\<rparr>"
  by (simp add: generateProcessParameters_def split_beta Let_def)

text \<open>
  C4, as stated, fails: the handler of \<^verbatim>\<open>/api/process/parameters\<close> calls
  \<^verbatim>\<open>generateProcessParameters\<close> on every request, which replaces
  \<^verbatim>\<open>lastParameters\<close>. In the start state nothing is retained; after one pull something is.
\<close>

theorem pull_synthesizes_counterexample:
  "lastParameters (simulator start_state) = None
   \<and> lastParameters (simulator (fst (snd (get_api_process_parameters start_state still_world))))
       \<noteq> lastParameters (simulator start_state)"
  by (simp add: start_state_eq get_api_process_parameters_def split_beta Let_def
      generateProcessParameters_retained)

lemma simulatedDashboard_retained:
  "lastParameters (fst (snd (simulatedDashboard sim w)))
     = Some (current_parameters (fst (simulatedDashboard sim w)))"
  by (simp add: simulatedDashboard_def split_beta Let_def generateProcessParameters_retained)

text \<open>
  C4, amended. A pull of \<^verbatim>\<open>/api/dashboard/data\<close> when a snapshot is cached is a read
  of the cached snapshot: it returns that snapshot, leaves the whole server state
  (\<^verbatim>\<open>lastParameters\<close> included) unchanged and draws nothing (the world only advances by
  the clock reading of the response's timestamp). When no snapshot is cached it synthesizes
  one, which it returns without caching it, and \<^verbatim>\<open>lastParameters\<close> becomes the process
  parameters of that snapshot. A pull of \<^verbatim>\<open>/api/sensors/realtime\<close> synthesizes the
  readings it returns and leaves the server state unchanged; a pull of
  \<^verbatim>\<open>/api/process/parameters\<close> synthesizes the record it returns and retains it as
  \<^verbatim>\<open>lastParameters\<close>.
\<close>

theorem pull_reads_cache_or_synthesizes:
  "(latestDashboardData s = Some d \<longrightarrow>
      data (fst (get_api_dashboard_data s w)) = Some d
      \<and> fst (snd (get_api_dashboard_data s w)) = s
      \<and> snd (snd (get_api_dashboard_data s w)) = w\<lparr>clock_pos := Suc (clock_pos w)\<rparr>)
   \<and> (latestDashboardData s = None \<longrightarrow>
      data (fst (get_api_dashboard_data s w)) = Some (fst (simulatedDashboard (simulator s) w))
      \<and> latestDashboardData (fst (snd (get_api_dashboard_data s w))) = None
      \<and> lastParameters (simulator (fst (snd (get_api_dashboard_data s w))))
          = Some (current_parameters (fst (simulatedDashboard (simulator s) w))))
   \<and> data (fst (get_api_sensors_realtime s w)) = Some (fst (generateSensorReadings (simulator s) w))
   \<and> fst (snd (get_api_sensors_realtime s w)) = s
   \<and> data (fst (get_api_process_parameters s w))
       = Some (fst (generateProcessParameters (simulator s) w))
   \<and> lastParameters (simulator (fst (snd (get_api_process_parameters s w))))
       = Some (fst (generateProcessParameters (simulator s) w))"
  by (simp add: get_api_dashboard_data_def get_api_sensors_realtime_def
      get_api_process_parameters_def split_beta Let_def Date_now_def
      generateProcessParameters_retained simulatedDashboard_retained)

lemma broadcastData_caches:
  "latestDashboardData (fst (snd (broadcastData s w))) = Some (fst (broadcastData s w))"
  by (simp add: broadcastData_def split_beta Let_def)

text \<open>
  After one tick from the loaded state the snapshot sent is cached and a dashboard pull
  returns it, leaving the state as it is; in the start state nothing is cached and a
  dashboard pull retains the parameters it synthesizes.
\<close>

theorem pull_reads_cache_or_synthesizes_witness:
  "latestDashboardData (fst (snd (broadcastData loaded_state loaded_world)))
       = Some (fst (broadcastData loaded_state loaded_world))
   \<and> data (fst (get_api_dashboard_data (fst (snd (broadcastData loaded_state loaded_world)))
         still_world)) = Some (fst (broadcastData loaded_state loaded_world))
   \<and> fst (snd (get_api_dashboard_data (fst (snd (broadcastData loaded_state loaded_world)))
         still_world)) = fst (snd (broadcastData loaded_state loaded_world))
   \<and> latestDashboardData start_state = None
   \<and> latestDashboardData (fst (snd (get_api_dashboard_data start_state still_world))) = None
   \<and> lastParameters (simulator (fst (snd (get_api_dashboard_data start_state still_world))))
       = Some (current_parameters (fst (simulatedDashboard (simulator start_state) still_world)))"
proof -
  have c: "latestDashboardData (fst (snd (broadcastData loaded_state loaded_world)))
       = Some (fst (broadcastData loaded_state loaded_world))"
    by (rule broadcastData_caches)
  have n: "latestDashboardData start_state = None"
    by (simp add: start_state_eq)
  show ?thesis
    using c n
      pull_reads_cache_or_synthesizes
        [of "fst (snd (broadcastData loaded_state loaded_world))"
            "fst (broadcastData loaded_state loaded_world)" still_world]
      pull_reads_cache_or_synthesizes [of start_state _ still_world]
    by simp
qed

section \<open>Properties of the chat service\<close>

lemma parse_fallbackReply:
  "parseGeminiResponse fallbackReply =
     Inr \<lparr>response = fallbackText, confidence = 0.85,
          recommendations = Some (extractRecommendations fallbackText),
          context_used = [''plant_data'', ''process_parameters'', ''environmental_metrics'']\<rparr>"
  by (simp add: parseGeminiResponse_def fallbackReply_def)

lemma callGeminiAPI_failed:
  assumes "failed_call (fst (fetch (baseURL @ ''?key='' @ apiKey svc, prompt) w))"
  shows "fst (callGeminiAPI svc prompt w) = fallbackReply"
  using assms
  by (auto simp add: callGeminiAPI_def failed_call_def split_beta Let_def
      split: fetch_outcome.splits option.splits simp del: append.simps)

lemma askGemini_failed:
  assumes "failed_call (fst (fetch (chat_request svc question dashboardData) w))"
  shows "fst (askGemini svc question dashboardData None w) =
     \<lparr>response = fallbackText, confidence = 0.85,
      recommendations = Some (extractRecommendations fallbackText),
      context_used = [''plant_data'', ''process_parameters'', ''environmental_metrics'']\<rparr>"
proof -
  have "fst (callGeminiAPI svc
          (buildSystemPrompt svc @ ''\<newline>\<newline>''
             @ buildContextualPrompt question dashboardData None) w) = fallbackReply"
    using assms unfolding chat_request_def by (rule callGeminiAPI_failed)
  then show ?thesis
    by (simp add: askGemini_def split_beta Let_def parse_fallbackReply del: append.simps)
qed

lemma post_api_ai_chat_data:
  "data (fst (post_api_ai_chat (Some b) s w)) =
     Some (fst (askGemini (geminiService s) (ChatBody.message b) (latestDashboardData s) None w))"
  by (simp add: post_api_ai_chat_def split_beta Let_def)

lemma still_world_fetch: "fst (fetch request still_world) = Fetch_rejected"
  by (simp add: fetch_def still_world_def)

text \<open>
  C3, as stated, fails. In the start state no snapshot is cached, and in the sample world
  the fetch is rejected; \<^verbatim>\<open>callGeminiAPI\<close> catches the failure itself and returns its
  canned reply, which \<^verbatim>\<open>parseGeminiResponse\<close> parses like any reply. The response of the
  chat request has confidence \<open>0.85\<close>, not \<open>0\<close>, and its \<^verbatim>\<open>context_used\<close> is not
  \<^verbatim>\<open>["error"]\<close>.
\<close>

theorem chat_backend_failure_counterexample:
  "latestDashboardData start_state = None
   \<and> fst (fetch (chat_request (geminiService start_state) (ChatBody.message sample_chat_body)
              (latestDashboardData start_state)) still_world) = Fetch_rejected
   \<and> map_option confidence (data (fst (post_api_ai_chat (Some sample_chat_body) start_state
         still_world))) = Some 0.85
   \<and> map_option confidence (data (fst (post_api_ai_chat (Some sample_chat_body) start_state
         still_world))) \<noteq> Some 0
   \<and> map_option context_used (data (fst (post_api_ai_chat (Some sample_chat_body) start_state
         still_world))) \<noteq> Some [''error'']"
proof -
  have "failed_call (fst (fetch (chat_request (geminiService start_state)
          (ChatBody.message sample_chat_body) (latestDashboardData start_state)) still_world))"
    by (simp only: still_world_fetch failed_call_def fetch_outcome.case)
  from askGemini_failed [OF this] show ?thesis
    by (simp add: post_api_ai_chat_data still_world_fetch start_state_eq)
qed

text \<open>
  C3, amended. For a chat request made when no snapshot is cached and the call to the
  text service fails (or delivers a body of unexpected structure), the response is the
  canned guidance text of \<^verbatim>\<open>callGeminiAPI\<close>, parsed like a reply: its confidence equals
  \<open>0.85\<close> and its \<^verbatim>\<open>context_used\<close> list equals
  \<^verbatim>\<open>["plant_data", "process_parameters", "environmental_metrics"]\<close>.
\<close>

theorem chat_backend_failure_fallback:
  assumes "latestDashboardData s = None"
    and "failed_call (fst (fetch (chat_request (geminiService s) (ChatBody.message b) None) w))"
  shows "\<exists>r. data (fst (post_api_ai_chat (Some b) s w)) = Some r
          \<and> response r = fallbackText
          \<and> confidence r = 0.85
          \<and> context_used r = [''plant_data'', ''process_parameters'', ''environmental_metrics'']"
  using askGemini_failed [OF assms(2)] by (simp add: post_api_ai_chat_data assms(1))

theorem chat_backend_failure_fallback_witness:
  "latestDashboardData start_state = None
   \<and> failed_call (fst (fetch (chat_request (geminiService start_state)
        (ChatBody.message sample_chat_body) None) still_world))
   \<and> (\<exists>r. data (fst (post_api_ai_chat (Some sample_chat_body) start_state still_world)) = Some r
          \<and> response r = fallbackText
          \<and> confidence r = 0.85
          \<and> context_used r = [''plant_data'', ''process_parameters'', ''environmental_metrics''])"
proof -
  have n: "latestDashboardData start_state = None"
    by (simp add: start_state_eq)
  have f: "failed_call (fst (fetch (chat_request (geminiService start_state)
        (ChatBody.message sample_chat_body) None) still_world))"
    by (simp only: still_world_fetch failed_call_def fetch_outcome.case)
  show ?thesis
    using n f chat_backend_failure_fallback [OF n f] by blast
qed

lemma extractRecommendations_entries:
  "length (extractRecommendations txt) \<le> 5
   \<and> (\<forall>e \<in> set (extractRecommendations txt).
         10 < length e
         \<and> (\<exists>line \<in> set (split_on CHR ''\<newline>'' txt).
               mentions_action line \<and> e = trim (strip_leading_nonword line)))"
proof -
  have "set (extractRecommendations txt)
      \<subseteq> set (filter (\<lambda>c. length c > 10)
              (map cleaned (filter mentions_action (split_on CHR ''\<newline>'' txt))))"
    unfolding extractRecommendations_def Let_def by (rule set_take_subset)
  then show ?thesis
    by (auto simp add: extractRecommendations_def cleaned_def Let_def)
qed

text \<open>
  C10. Every response built from a successfully parsed reply has confidence \<open>0.85\<close> and a
  recommendations list of at most 5 entries; each entry is a line of the reply text (one
  that names an action) with its leading non-word characters stripped and then trimmed,
  and is more than 10 characters long.
\<close>

theorem parsed_reply_recommendations:
  assumes "parseGeminiResponse r = Inr g"
  shows "confidence g = 0.85
       \<and> (\<exists>recs. recommendations g = Some recs
            \<and> length recs \<le> 5
            \<and> (\<forall>e \<in> set recs.
                  10 < length e
                  \<and> (\<exists>line \<in> set (split_on CHR ''\<newline>'' (response g)).
                        mentions_action line \<and> e = trim (strip_leading_nonword line))))"
proof -
  from assms have "confidence g = 0.85
      \<and> recommendations g = Some (extractRecommendations (response g))"
    by (auto simp add: parseGeminiResponse_def split: option.splits list.splits)
  then show ?thesis
    using extractRecommendations_entries [of "response g"] by simp
qed

lemma sample_reply_recommendations:
  "extractRecommendations sample_reply_text =
     [''Reduce kiln temperature by 10 degrees'', ''2) Increase alternative fuel rate to 30%'',
      ''Optimize** the air-to-fuel ratio'', ''Adjust cement mill power'',
      ''Monitor NOx emissions'']"
  by code_simp

lemma parse_sample_reply:
  "parseGeminiResponse sample_reply =
     Inr \<lparr>response = sample_reply_text, confidence = 0.85,
          recommendations = Some (extractRecommendations sample_reply_text),
          context_used = [''plant_data'', ''process_parameters'', ''environmental_metrics'']\<rparr>"
  by (simp add: parseGeminiResponse_def sample_reply_def)

text \<open>
  The sample reply: the short line is dropped, the sixth qualifying line is cut off by
  the limit of five.
\<close>

theorem parsed_reply_recommendations_witness:
  "parseGeminiResponse sample_reply =
     Inr \<lparr>response = sample_reply_text, confidence = 0.85,
          recommendations = Some
            [''Reduce kiln temperature by 10 degrees'',
             ''2) Increase alternative fuel rate to 30%'',
             ''Optimize** the air-to-fuel ratio'', ''Adjust cement mill power'',
             ''Monitor NOx emissions''],
          context_used = [''plant_data'', ''process_parameters'', ''environmental_metrics'']\<rparr>
   \<and> length (extractRecommendations sample_reply_text) \<le> 5"
  using parsed_reply_recommendations [OF parse_sample_reply]
  by (simp add: parse_sample_reply sample_reply_recommendations)


end
